theory Spec2Isabelle
  imports Complex_Main "HOL-Library.Multiset"
begin

section \<open>Floating-point values\<close>

text \<open>
  The program computes with IEEE double-precision numbers (numpy \<open>float64\<close>).  A finite
  double is idealised as the real number it denotes: rounding of arithmetic results is not
  modelled.  The three special values are kept, because the libraries produce and test them:
  \<open>NaN\<close> is pandas' marker of a missing cell, and the infinities come out of a division by
  zero or of \<open>log 0\<close>.
\<close>

datatype fl = Fin real | PInf | NInf | NaN

text \<open>\<open>x < y\<close> on doubles: every comparison with \<open>NaN\<close> is false.\<close>

fun fl_less :: "fl \<Rightarrow> fl \<Rightarrow> bool" where
  "fl_less NaN _ = False"
| "fl_less _ NaN = False"
| "fl_less (Fin a) (Fin b) = (a < b)"
| "fl_less (Fin a) PInf = True"
| "fl_less (Fin a) NInf = False"
| "fl_less PInf _ = False"
| "fl_less NInf NInf = False"
| "fl_less NInf _ = True"

text \<open>\<open>x >= y\<close> on doubles: false as soon as one side is \<open>NaN\<close>.\<close>

fun fl_ge :: "fl \<Rightarrow> fl \<Rightarrow> bool" where
  "fl_ge NaN _ = False"
| "fl_ge _ NaN = False"
| "fl_ge (Fin a) (Fin b) = (b \<le> a)"
| "fl_ge (Fin a) PInf = False"
| "fl_ge (Fin a) NInf = True"
| "fl_ge PInf _ = True"
| "fl_ge NInf NInf = True"
| "fl_ge NInf _ = False"

text \<open>\<open>np.sqrt\<close>.\<close>

fun np_sqrt :: "fl \<Rightarrow> fl" where
  "np_sqrt (Fin a) = (if a < 0 then NaN else Fin (sqrt a))"
| "np_sqrt PInf = PInf"
| "np_sqrt NInf = NaN"
| "np_sqrt NaN = NaN"

section \<open>String formatting\<close>

text \<open>\<open>str(n)\<close> for a non-negative integer.\<close>

definition digit :: "nat \<Rightarrow> char" where
  "digit d = ''0123456789'' ! d"

fun str_nat :: "nat \<Rightarrow> string" where
  "str_nat n = (if n < 10 then [digit n] else str_nat (n div 10) @ [digit (n mod 10)])"

declare str_nat.simps [simp del]

text \<open>
  Rounding to the nearest integer, ties to the even neighbour: the rule of Python's
  \<open>format\<close>, which rounds the exact value of the double.
\<close>

definition round_half_even :: "real \<Rightarrow> nat" where
  "round_half_even q =
     (let f = nat \<lfloor>q\<rfloor>; r = q - real f
      in if r < 1 / 2 then f else if 1 / 2 < r then f + 1
         else if even f then f else f + 1)"

text \<open>The four digits after the decimal point, zero-padded on the left.\<close>

definition frac4 :: "nat \<Rightarrow> string" where
  "frac4 m = [digit (m div 1000 mod 10), digit (m div 100 mod 10),
              digit (m div 10 mod 10), digit (m mod 10)]"

text \<open>
  \<open>f"{x:.4f}"\<close>: sign, integer part, point, four decimals; \<open>nan\<close> and \<open>inf\<close> for the
  special values.  The sign is the sign of \<open>x\<close> itself, so a small negative number
  prints as \<open>-0.0000\<close>.
\<close>

fun fmt4 :: "fl \<Rightarrow> string" where
  "fmt4 NaN = ''nan''"
| "fmt4 PInf = ''inf''"
| "fmt4 NInf = ''-inf''"
| "fmt4 (Fin x) =
     (let n = round_half_even (\<bar>x\<bar> * 10000)
      in (if x < 0 then ''-'' else '''') @ str_nat (n div 10000) @ ''.'' @ frac4 (n mod 10000))"

section \<open>Regression results\<close>

text \<open>
  What the program reads of a fitted statsmodels model: the three pandas Series
  \<open>params\<close>, \<open>bse\<close> and \<open>pvalues\<close>, indexed by the names of the design matrix's columns
  (association lists, in column order), and the scalars \<open>mse_resid\<close>, \<open>rsquared\<close> and
  \<open>nobs\<close>.
\<close>

record reg =
  params :: "(string \<times> fl) list"
  bse :: "(string \<times> fl) list"
  pvalues :: "(string \<times> fl) list"
  mse_resid :: fl
  rsquared :: fl
  nobs :: nat

text \<open>\<open>series.get(key, default)\<close>.\<close>

definition series_get :: "(string \<times> fl) list \<Rightarrow> string \<Rightarrow> fl \<Rightarrow> fl" where
  "series_get s k d = (case map_of s k of None \<Rightarrow> d | Some v \<Rightarrow> v)"

section \<open>The regression table on screen\<close>

text \<open>
  The helper \<open>create_cell_value\<close> of \<open>create_regression_table_dataframe\<close>.  The test
  \<open>var_name in reg.params.index\<close> and the read \<open>reg.params[var_name]\<close> are one lookup.
\<close>

definition create_cell_value :: "reg \<Rightarrow> string \<Rightarrow> string" where
  "create_cell_value r var_name =
     (case map_of (params r) var_name of
        Some val \<Rightarrow>
          (let se = series_get (bse r) var_name (Fin 0);
               pval = series_get (pvalues r) var_name (Fin 1);
               sig = (if fl_less pval (Fin (1 / 100)) then ''***''
                      else if fl_less pval (Fin (5 / 100)) then ''**''
                      else if fl_less pval (Fin (1 / 10)) then ''*'' else [])
           in fmt4 val @ sig @ '' ('' @ fmt4 se @ '')'')
      | None \<Rightarrow> [])"

text \<open>The column key \<open>S,R\<close> followed by a superscript two (two bytes in UTF-8).\<close>

definition key_SR2 :: string where
  "key_SR2 = ''S,R'' @ [CHR 0xC2, CHR 0xB2]"

text \<open>One pass of the loop body: the dictionary \<open>row\<close>, in the order its keys are set.\<close>

definition df_row :: "nat \<Rightarrow> reg \<Rightarrow> (string \<times> string) list" where
  "df_row i r =
     [(''Regression'', ''('' @ str_nat i @ '')''),
      (''Int.'', create_cell_value r ''const''),
      (''S&P 500'', create_cell_value r ''SP500''),
      (''Val.-Wgtd'', create_cell_value r ''VW''),
      (''30 Yr Treas.'', create_cell_value r ''TYX''),
      (key_SR2, fmt4 (np_sqrt (mse_resid r)) @ '', '' @ fmt4 (rsquared r))]"

text \<open>\<open>for i, reg in enumerate(regressions, 1)\<close>, appending one row per model.\<close>

fun df_rows :: "nat \<Rightarrow> reg list \<Rightarrow> (string \<times> string) list list" where
  "df_rows i [] = []"
| "df_rows i (r # rs) = df_row i r # df_rows (Suc i) rs"

definition create_regression_table_dataframe :: "reg list \<Rightarrow> (string \<times> string) list list" where
  "create_regression_table_dataframe regressions = df_rows 1 regressions"

section \<open>The regression table of the PDF report\<close>

text \<open>The second \<open>create_cell_value\<close>, local to \<open>generate_pdf_report\<close>.\<close>

definition pdf_create_cell_value :: "reg \<Rightarrow> string \<Rightarrow> string" where
  "pdf_create_cell_value r var_name =
     (case map_of (params r) var_name of
        Some val \<Rightarrow>
          (let se = series_get (bse r) var_name (Fin 0);
               pval = series_get (pvalues r) var_name (Fin 1);
               sig = (if fl_less pval (Fin (1 / 100)) then ''***''
                      else if fl_less pval (Fin (5 / 100)) then ''**''
                      else if fl_less pval (Fin (1 / 10)) then ''*'' else [])
           in fmt4 val @ sig @ '' ('' @ fmt4 se @ '')'')
      | None \<Rightarrow> [])"

definition pdf_row :: "nat \<Rightarrow> reg \<Rightarrow> string list" where
  "pdf_row i r =
     [''('' @ str_nat i @ '')''] @
     [pdf_create_cell_value r ''const''] @
     [pdf_create_cell_value r ''SP500''] @
     [pdf_create_cell_value r ''VW''] @
     [pdf_create_cell_value r ''TYX''] @
     [fmt4 (np_sqrt (mse_resid r)) @ '', '' @ fmt4 (rsquared r)]"

fun pdf_rows :: "nat \<Rightarrow> reg list \<Rightarrow> string list list" where
  "pdf_rows i [] = []"
| "pdf_rows i (r # rs) = pdf_row i r # pdf_rows (Suc i) rs"

text \<open>\<open>table_data\<close> of \<open>generate_pdf_report\<close>: the header, then one row per model.\<close>

definition pdf_table_data :: "reg list \<Rightarrow> string list list" where
  "pdf_table_data regressions =
     [[''Regression'', ''Int.'', ''S&P 500'', ''Val.-Wgtd'', ''30 Yr Treas.'', key_SR2]]
     @ pdf_rows 1 regressions"

section \<open>The table format as the specification words it\<close>

text \<open>Significance stars as a function of the p-value.\<close>

definition significance_level :: "fl \<Rightarrow> string" where
  "significance_level p =
     (if fl_less p (Fin (1 / 100)) then ''***''
      else if fl_less p (Fin (5 / 100)) then ''**''
      else if fl_less p (Fin (1 / 10)) then ''*'' else [])"

text \<open>Coefficient with four decimals, stars, standard error with four decimals in parentheses.\<close>

definition spec_cell :: "fl \<Rightarrow> fl \<Rightarrow> fl \<Rightarrow> string" where
  "spec_cell coef se p = fmt4 coef @ significance_level p @ '' ('' @ fmt4 se @ '')''"

section \<open>Series of returns\<close>

text \<open>
  A pandas Series of doubles is the list of its values.  \<open>dropna\<close> removes the missing
  cells (\<open>NaN\<close>); the infinities are not missing values to pandas.
\<close>

definition isna :: "fl \<Rightarrow> bool" where
  "isna x = (x = NaN)"

definition dropna_series :: "fl list \<Rightarrow> fl list" where
  "dropna_series s = filter (\<lambda>x. \<not> isna x) s"

text \<open>The finite values of an array, when all of them are finite (\<open>np.isfinite(data).all()\<close>).\<close>

fun isfinite :: "fl \<Rightarrow> bool" where
  "isfinite (Fin a) = True"
| "isfinite _ = False"

fun the_real :: "fl \<Rightarrow> real" where
  "the_real (Fin a) = a"
| "the_real _ = 0"

definition mean :: "real list \<Rightarrow> real" where
  "mean xs = sum_list xs / real (length xs)"

section \<open>Empirical distribution: \<open>plot_cdf\<close>\<close>

text \<open>The order in which \<open>np.sort\<close> arranges doubles: ascending, \<open>NaN\<close> last.\<close>

fun fl_le :: "fl \<Rightarrow> fl \<Rightarrow> bool" where
  "fl_le _ NaN = True"
| "fl_le NaN _ = False"
| "fl_le NInf _ = True"
| "fl_le (Fin a) (Fin b) = (a \<le> b)"
| "fl_le (Fin a) PInf = True"
| "fl_le (Fin a) NInf = False"
| "fl_le PInf PInf = True"
| "fl_le PInf _ = False"

fun insort_fl :: "fl \<Rightarrow> fl list \<Rightarrow> fl list" where
  "insort_fl x [] = [x]"
| "insort_fl x (y # ys) = (if fl_le x y then x # y # ys else y # insort_fl x ys)"

fun np_sort :: "fl list \<Rightarrow> fl list" where
  "np_sort [] = []"
| "np_sort (x # xs) = insort_fl x (np_sort xs)"

text \<open>
  \<open>np.linspace(start, stop, num)\<close> with the default \<open>endpoint=True\<close>, as numpy computes it:
  the indices \<open>0 .. num-1\<close> are scaled by \<open>step = (stop - start) / (num - 1)\<close> when
  \<open>num > 1\<close> and by \<open>stop - start\<close> otherwise, shifted by \<open>start\<close>, and the last entry is
  overwritten with \<open>stop\<close> when \<open>num > 1\<close>.
\<close>

definition np_linspace :: "real \<Rightarrow> real \<Rightarrow> nat \<Rightarrow> real list" where
  "np_linspace start stop num =
     (let dv = int num - 1;
          delta = stop - start;
          y = map real [0..<num];
          y = (if 0 < dv then
                 (let step = delta / real_of_int dv
                  in if step = 0 then map (\<lambda>v. v / real_of_int dv * delta) y
                     else map (\<lambda>v. v * step) y)
               else map (\<lambda>v. v * delta) y);
          y = map (\<lambda>v. v + start) y
      in if 1 < num then y[num - 1 := stop] else y)"

text \<open>
  The points \<open>plot_cdf\<close> scatters for one series: the sorted values of the series without
  its missing cells, against \<open>np.linspace(0, 1, len(sorted))\<close>.
\<close>

definition cdf_sorted :: "fl list \<Rightarrow> fl list" where
  "cdf_sorted series = np_sort (dropna_series series)"

definition cdf_probabilities :: "fl list \<Rightarrow> real list" where
  "cdf_probabilities series = np_linspace 0 1 (length (cdf_sorted series))"

definition plot_cdf_points :: "fl list \<Rightarrow> (fl \<times> real) list" where
  "plot_cdf_points series = zip (cdf_sorted series) (cdf_probabilities series)"

section \<open>Normal fit and descriptive statistics\<close>

datatype error = ValueError | LinAlgError

text \<open>
  \<open>scipy.stats.norm.fit(data)\<close> with no fixed parameter: it raises \<open>ValueError\<close> when
  some value is not finite; otherwise the location is \<open>data.mean()\<close> and the scale is
  \<open>sqrt(((data - loc)**2).mean())\<close>.  The mean of an empty array is \<open>nan\<close> (numpy warns,
  it does not raise).
\<close>

definition norm_fit :: "fl list \<Rightarrow> error + fl \<times> fl" where
  "norm_fit data =
     (if \<not> list_all isfinite data then Inl ValueError
      else if data = [] then Inr (NaN, NaN)
      else (let xs = map the_real data;
                loc = mean xs;
                scale = sqrt (mean (map (\<lambda>x. (x - loc)\<^sup>2) xs))
            in Inr (Fin loc, Fin scale)))"

text \<open>
  \<open>Series.std()\<close> of pandas: missing cells are skipped and the divisor is \<open>n - 1\<close>
  (\<open>ddof=1\<close>); the result is \<open>nan\<close> for fewer than two values, and when a value is
  infinite (the deviations from the mean then contain \<open>inf - inf\<close>).
\<close>

definition pandas_std :: "fl list \<Rightarrow> fl" where
  "pandas_std series =
     (let v = dropna_series series
      in if length v < 2 then NaN
         else if \<not> list_all isfinite v then NaN
         else (let xs = map the_real v; m = mean xs
               in Fin (sqrt (sum_list (map (\<lambda>x. (x - m)\<^sup>2) xs) / real (length xs - 1)))))"

text \<open>
  The two standard deviations \<open>generate_pdf_report\<close> prints for the target series: in
  the normal-distribution section \<open>sigma\<close> of \<open>norm.fit(returns[stock_ticker].dropna())\<close>,
  in the CDF section \<open>stock_returns.std()\<close>, each with four decimals.
\<close>

definition printed_sigma :: "fl list \<Rightarrow> error + string" where
  "printed_sigma series =
     (case norm_fit (dropna_series series) of
        Inl e \<Rightarrow> Inl e
      | Inr (mu, sigma) \<Rightarrow> Inr (fmt4 sigma))"

definition printed_std_dev :: "fl list \<Rightarrow> string" where
  "printed_std_dev series = fmt4 (pandas_std (dropna_series series))"

section \<open>Standard deviations as the specification words them\<close>

text \<open>Population standard deviation: the squared deviations from the mean, divided by \<open>n\<close>.\<close>

definition population_sd :: "real list \<Rightarrow> real" where
  "population_sd xs = sqrt (sum_list (map (\<lambda>x. (x - mean xs)\<^sup>2) xs) / real (length xs))"

text \<open>Sample standard deviation: the same sum, divided by \<open>n - 1\<close>.\<close>

definition sample_sd :: "real list \<Rightarrow> real" where
  "sample_sd xs = sqrt (sum_list (map (\<lambda>x. (x - mean xs)\<^sup>2) xs) / (real (length xs) - 1))"

section \<open>Price tables and \<open>load_data\<close>\<close>

text \<open>
  A row of the price table after \<open>raw.columns = [stock_ticker, "SP500", "VW", "TYX"]\<close>: the
  four cells, named as the program names them (the first column is the target stock).
\<close>

record row =
  stock :: fl
  SP500 :: fl
  VW :: fl
  TYX :: fl

text \<open>
  A DataFrame is the list of its index labels and rows, in index order.  A daily table is
  indexed by calendar dates (year, month, day), which the data source delivers in
  ascending order; a monthly table by the number of the calendar month, which stands
  for that month's last day.
\<close>

type_synonym date = "nat \<times> nat \<times> nat"

type_synonym 'i frame = "('i \<times> row) list"

definition month_of :: "date \<Rightarrow> nat" where
  "month_of d = (case d of (y, m, _) \<Rightarrow> 12 * y + (m - 1))"

definition map_row :: "(fl \<Rightarrow> fl) \<Rightarrow> row \<Rightarrow> row" where
  "map_row f r = \<lparr>stock = f (stock r), SP500 = f (SP500 r), VW = f (VW r), TYX = f (TYX r)\<rparr>"

definition map2_row :: "(fl \<Rightarrow> fl \<Rightarrow> fl) \<Rightarrow> row \<Rightarrow> row \<Rightarrow> row" where
  "map2_row f r q =
     \<lparr>stock = f (stock r) (stock q), SP500 = f (SP500 r) (SP500 q),
      VW = f (VW r) (VW q), TYX = f (TYX r) (TYX q)\<rparr>"

definition nan_row :: row where
  "nan_row = \<lparr>stock = NaN, SP500 = NaN, VW = NaN, TYX = NaN\<rparr>"

definition row_hasna :: "row \<Rightarrow> bool" where
  "row_hasna r = (isna (stock r) \<or> isna (SP500 r) \<or> isna (VW r) \<or> isna (TYX r))"

text \<open>\<open>DataFrame.dropna()\<close>: drop every row with a missing value in any column.\<close>

definition dropna :: "'i frame \<Rightarrow> 'i frame" where
  "dropna df = filter (\<lambda>(i, r). \<not> row_hasna r) df"

text \<open>The last non-missing value of a column, \<open>NaN\<close> when there is none.\<close>

definition last_valid :: "fl list \<Rightarrow> fl" where
  "last_valid col = (case filter (\<lambda>x. \<not> isna x) col of [] \<Rightarrow> NaN | v # vs \<Rightarrow> last (v # vs))"

text \<open>
  \<open>df.resample("ME").last()\<close>: one row for every calendar month from the month of the first
  index label to the month of the last one, holding, column by column, the last
  non-missing value among the rows of that month (\<open>NaN\<close> for a month without one).  The
  empty table stays empty.
\<close>

definition month_rows :: "date frame \<Rightarrow> nat \<Rightarrow> row list" where
  "month_rows df m = map snd (filter (\<lambda>(d, r). month_of d = m) df)"

definition last_row :: "row list \<Rightarrow> row" where
  "last_row rs =
     \<lparr>stock = last_valid (map stock rs), SP500 = last_valid (map SP500 rs),
      VW = last_valid (map VW rs), TYX = last_valid (map TYX rs)\<rparr>"

definition resample_ME_last :: "date frame \<Rightarrow> nat frame" where
  "resample_ME_last df =
     (case df of
        [] \<Rightarrow> []
      | _ # _ \<Rightarrow> map (\<lambda>m. (m, last_row (month_rows df m)))
                   [month_of (fst (hd df)) ..< Suc (month_of (fst (last df)))])"

text \<open>\<open>df.shift(1)\<close>: every row takes the values of the row before it; the first is missing.\<close>

definition shift1 :: "'i frame \<Rightarrow> 'i frame" where
  "shift1 df = zip (map fst df) (nan_row # butlast (map snd df))"

text \<open>Division and logarithm of doubles (the sign of a zero is not modelled).\<close>

fun fl_div :: "fl \<Rightarrow> fl \<Rightarrow> fl" where
  "fl_div NaN _ = NaN"
| "fl_div _ NaN = NaN"
| "fl_div (Fin a) (Fin b) =
     (if b \<noteq> 0 then Fin (a / b) else if a = 0 then NaN else if 0 < a then PInf else NInf)"
| "fl_div (Fin a) PInf = Fin 0"
| "fl_div (Fin a) NInf = Fin 0"
| "fl_div PInf (Fin b) = (if b < 0 then NInf else PInf)"
| "fl_div NInf (Fin b) = (if b < 0 then PInf else NInf)"
| "fl_div PInf _ = NaN"
| "fl_div NInf _ = NaN"

fun fl_log :: "fl \<Rightarrow> fl" where
  "fl_log (Fin a) = (if 0 < a then Fin (ln a) else if a = 0 then NInf else NaN)"
| "fl_log PInf = PInf"
| "fl_log NInf = NaN"
| "fl_log NaN = NaN"

text \<open>Cell by cell on two tables with the same index, and on one table.\<close>

definition df_div :: "'i frame \<Rightarrow> 'i frame \<Rightarrow> 'i frame" where
  "df_div a b = map (\<lambda>((i, r), (j, q)). (i, map2_row fl_div r q)) (zip a b)"

definition np_log :: "'i frame \<Rightarrow> 'i frame" where
  "np_log df = map (\<lambda>(i, r). (i, map_row fl_log r)) df"

text \<open>
  \<open>load_data\<close>.  The download is the data source's: \<open>yf_download tickers start end\<close> is
  the table of adjusted closing prices it returns, or the exception it raises.  The
  program has no handler, so an exception leaves \<open>load_data\<close> as it came.
\<close>

definition load_data ::
  "(string list \<Rightarrow> string \<Rightarrow> string \<Rightarrow> 'e + date frame) \<Rightarrow> string \<Rightarrow> string \<Rightarrow> string
   \<Rightarrow> 'e + nat frame" where
  "load_data yf_download stock_ticker start end_date =
     (let tickers = [stock_ticker, ''^GSPC'', ''^W5000'', ''^TYX'']
      in case yf_download tickers start end_date of
           Inl e \<Rightarrow> Inl e
         | Inr raw \<Rightarrow>
             (let raw = dropna raw;
                  monthly_prices = resample_ME_last raw;
                  returns = dropna (np_log (df_div monthly_prices (shift1 monthly_prices)))
              in Inr returns))"

section \<open>The return series as the specification words it\<close>

text \<open>
  The month-end price of a column: the last observation within the calendar month.  The
  monthly return: the natural logarithm of the ratio of consecutive month-end prices.  The
  first month has no return; rows with a missing value are dropped.
\<close>

definition month_end_price :: "date frame \<Rightarrow> (row \<Rightarrow> fl) \<Rightarrow> nat \<Rightarrow> fl" where
  "month_end_price df col m = last_valid (map col (month_rows df m))"

definition monthly_return :: "date frame \<Rightarrow> (row \<Rightarrow> fl) \<Rightarrow> nat \<Rightarrow> fl" where
  "monthly_return df col m = fl_log (fl_div (month_end_price df col m) (month_end_price df col (m - 1)))"

definition return_row :: "date frame \<Rightarrow> nat \<Rightarrow> row" where
  "return_row df m =
     \<lparr>stock = monthly_return df stock m, SP500 = monthly_return df SP500 m,
      VW = monthly_return df VW m, TYX = monthly_return df TYX m\<rparr>"

definition spec_return_series :: "date frame \<Rightarrow> nat frame" where
  "spec_return_series df =
     (if df = [] then []
      else filter (\<lambda>(m, r). \<not> row_hasna r)
             (map (\<lambda>m. (m, return_row df m))
                [Suc (month_of (fst (hd df))) ..< Suc (month_of (fst (last df)))]))"

section \<open>Design matrices and \<open>run_regressions\<close>\<close>

text \<open>A column of the return table, and a design matrix as its named columns.\<close>

definition column :: "(row \<Rightarrow> fl) \<Rightarrow> nat frame \<Rightarrow> fl list" where
  "column c returns = map (\<lambda>(m, r). c r) returns"

type_synonym design = "(string \<times> fl list) list"

definition nrows :: "design \<Rightarrow> nat" where
  "nrows x = (case x of [] \<Rightarrow> 0 | (name, col) # _ \<Rightarrow> length col)"

text \<open>
  The test statsmodels applies to a column before it adds a constant:
  \<open>np.ptp(s) == 0.0 and np.any(s != 0.0)\<close>, false when the test raises (an empty column).
  The range of a column with a \<open>NaN\<close> or an infinity is not 0.
\<close>

definition safe_is_const :: "fl list \<Rightarrow> bool" where
  "safe_is_const s =
     (s \<noteq> [] \<and> list_all isfinite s \<and> list_all (\<lambda>x. x = hd s) s \<and> list_ex (\<lambda>x. x \<noteq> Fin 0) s)"

text \<open>
  \<open>sm.add_constant(data)\<close> with its defaults \<open>prepend=True, has_constant='skip'\<close>: a column
  \<open>const\<close> of ones is put in front, unless some column is already a non-zero constant.
\<close>

definition add_constant :: "design \<Rightarrow> design" where
  "add_constant x =
     (if list_ex (\<lambda>(name, col). safe_is_const col) x then x
      else (''const'', replicate (nrows x) (Fin 1)) # x)"

text \<open>The five design matrices, in the order of the models.\<close>

definition design1 :: "nat frame \<Rightarrow> design" where
  "design1 returns = add_constant [(''SP500'', column SP500 returns)]"

definition design2 :: "nat frame \<Rightarrow> design" where
  "design2 returns = add_constant [(''VW'', column VW returns)]"

definition design3 :: "nat frame \<Rightarrow> design" where
  "design3 returns = add_constant [(''TYX'', column TYX returns)]"

definition design4 :: "nat frame \<Rightarrow> design" where
  "design4 returns = add_constant [(''SP500'', column SP500 returns), (''VW'', column VW returns)]"

definition design5 :: "nat frame \<Rightarrow> design" where
  "design5 returns =
     add_constant [(''SP500'', column SP500 returns), (''VW'', column VW returns),
                   (''TYX'', column TYX returns)]"

text \<open>
  \<open>run_regressions\<close>.  The fit is the library's: \<open>ols_fit y X\<close> is what
  \<open>sm.OLS(y, X).fit()\<close> returns, or the exception it raises.  The five fits run one after
  the other with no handler, so the first exception leaves the function and the fits made
  before it are lost.  The target \<open>returns[stock_ticker]\<close> is the first column of the table.
\<close>

definition run_regressions :: "(fl list \<Rightarrow> design \<Rightarrow> 'e + 'r) \<Rightarrow> nat frame \<Rightarrow> 'e + 'r list" where
  "run_regressions ols_fit returns =
     (let y = column stock returns
      in case ols_fit y (design1 returns) of Inl e \<Rightarrow> Inl e | Inr reg1 \<Rightarrow>
         (case ols_fit y (design2 returns) of Inl e \<Rightarrow> Inl e | Inr reg2 \<Rightarrow>
         (case ols_fit y (design3 returns) of Inl e \<Rightarrow> Inl e | Inr reg3 \<Rightarrow>
         (case ols_fit y (design4 returns) of Inl e \<Rightarrow> Inl e | Inr reg4 \<Rightarrow>
         (case ols_fit y (design5 returns) of Inl e \<Rightarrow> Inl e | Inr reg5 \<Rightarrow>
            Inr [reg1, reg2, reg3, reg4, reg5])))))"

definition five_designs :: "nat frame \<Rightarrow> design list" where
  "five_designs returns =
     [design1 returns, design2 returns, design3 returns, design4 returns, design5 returns]"

section \<open>Ordinary least squares: what the fit reports\<close>

text \<open>
  The quantities of a fit with coefficients \<open>b\<close> on a design with real columns \<open>cols\<close>
  (one coefficient per column) and target \<open>y\<close>: fitted values, sum of squared residuals,
  and the total sum of squares about the mean.
\<close>

fun fitted :: "real list list \<Rightarrow> real list \<Rightarrow> nat \<Rightarrow> real" where
  "fitted (c # cs) (b # bs) i = b * c ! i + fitted cs bs i"
| "fitted _ _ i = 0"

definition ssr :: "real list \<Rightarrow> real list list \<Rightarrow> real list \<Rightarrow> real" where
  "ssr y cols b = (\<Sum>i < length y. (y ! i - fitted cols b i)\<^sup>2)"

definition centered_tss :: "real list \<Rightarrow> real" where
  "centered_tss y = (\<Sum>i < length y. (y ! i - mean y)\<^sup>2)"

text \<open>
  The normal equations: the residuals are orthogonal to every column of the design.  They
  characterise the coefficients that minimise the sum of squared residuals, the solution
  the library computes with a pseudo-inverse.
\<close>

definition normal_equations :: "real list \<Rightarrow> real list list \<Rightarrow> real list \<Rightarrow> bool" where
  "normal_equations y cols b =
     list_all (\<lambda>c. (\<Sum>i < length y. c ! i * (y ! i - fitted cols b i)) = 0) cols"

fun fl_sub :: "fl \<Rightarrow> fl \<Rightarrow> fl" where
  "fl_sub NaN _ = NaN"
| "fl_sub _ NaN = NaN"
| "fl_sub (Fin a) (Fin b) = Fin (a - b)"
| "fl_sub (Fin a) PInf = NInf"
| "fl_sub (Fin a) NInf = PInf"
| "fl_sub PInf PInf = NaN"
| "fl_sub PInf _ = PInf"
| "fl_sub NInf NInf = NaN"
| "fl_sub NInf _ = NInf"

definition real_cols :: "design \<Rightarrow> real list list" where
  "real_cols x = map (\<lambda>(name, col). map the_real col) x"

text \<open>
  What statsmodels documents of the result \<open>r\<close> of \<open>sm.OLS(y, X).fit()\<close> on finite data
  with a constant in the design: \<open>params\<close> is indexed by the columns of \<open>X\<close> and holds
  least-squares coefficients, \<open>rsquared\<close> is \<open>1 - ssr / centered_tss\<close>, and \<open>nobs\<close> is the
  number of rows.
\<close>

definition is_ols_fit :: "fl list \<Rightarrow> design \<Rightarrow> reg \<Rightarrow> bool" where
  "is_ols_fit y x r =
     (let b = map (\<lambda>(name, v). the_real v) (params r);
          yr = map the_real y
      in map fst (params r) = map fst x \<and>
         list_all (\<lambda>(name, v). isfinite v) (params r) \<and>
         normal_equations yr (real_cols x) b \<and>
         rsquared r = fl_sub (Fin 1) (fl_div (Fin (ssr yr (real_cols x) b)) (Fin (centered_tss yr))) \<and>
         nobs r = length y)"

section \<open>Example inputs\<close>

text \<open>A fitted model with an intercept and the S&P 500 factor.\<close>

definition reg_example :: reg where
  "reg_example = \<lparr>params = [(''const'', Fin (1 / 32)), (''SP500'', Fin (123456 / 100000))],
                   bse = [(''const'', Fin (1 / 2)), (''SP500'', Fin (4321 / 100000))],
                   pvalues = [(''const'', NaN), (''SP500'', Fin (2 / 1000))],
                   mse_resid = Fin (1 / 4), rsquared = Fin (9 / 10), nobs = 24\<rparr>"

text \<open>A series of four cells, one of them missing.\<close>

definition series_example :: "fl list" where
  "series_example = [Fin (3 / 100), NaN, Fin (- 1 / 100), Fin (2 / 100)]"

text \<open>Two months of returns that differ by two thousandths of a percent.\<close>

definition flat_series :: "fl list" where
  "flat_series = [Fin 0, Fin (2 / 100000)]"

text \<open>
  Three trading days around the end of January 2024; on the last day of January one
  factor has no price.
\<close>

definition raw_gap :: "date frame" where
  "raw_gap =
     [((2024, 1, 30), \<lparr>stock = Fin 10, SP500 = Fin 20, VW = Fin 30, TYX = Fin 4\<rparr>),
      ((2024, 1, 31), \<lparr>stock = Fin 11, SP500 = NaN, VW = Fin 30, TYX = Fin 4\<rparr>),
      ((2024, 2, 29), \<lparr>stock = Fin 12, SP500 = Fin 20, VW = Fin 30, TYX = Fin 4\<rparr>)]"

definition download_gap :: "string list \<Rightarrow> string \<Rightarrow> string \<Rightarrow> error + date frame" where
  "download_gap tickers start end_date = Inr raw_gap"

text \<open>A date range that holds two trading days, one in each of two consecutive months.\<close>

definition raw_two_days :: "date frame" where
  "raw_two_days =
     [((2024, 1, 31), \<lparr>stock = Fin 10, SP500 = Fin 20, VW = Fin 30, TYX = Fin 4\<rparr>),
      ((2024, 2, 1), \<lparr>stock = Fin 10, SP500 = Fin 20, VW = Fin 30, TYX = Fin 4\<rparr>)]"

definition download_two_days :: "string list \<Rightarrow> string \<Rightarrow> string \<Rightarrow> error + date frame" where
  "download_two_days tickers start end_date = Inr raw_two_days"

text \<open>A data source that cannot be reached.\<close>

definition download_unreachable :: "string list \<Rightarrow> string \<Rightarrow> string \<Rightarrow> error + date frame" where
  "download_unreachable tickers start end_date = Inl ValueError"

text \<open>Three months of returns in which the two market factors coincide.\<close>

definition returns_collinear :: "nat frame" where
  "returns_collinear =
     [(24289, \<lparr>stock = Fin (1 / 100), SP500 = Fin (1 / 100), VW = Fin (1 / 100), TYX = Fin (2 / 100)\<rparr>),
      (24290, \<lparr>stock = Fin (3 / 100), SP500 = Fin (2 / 100), VW = Fin (2 / 100), TYX = Fin (1 / 100)\<rparr>),
      (24291, \<lparr>stock = Fin (- 1 / 100), SP500 = Fin 0, VW = Fin 0, TYX = Fin (3 / 100)\<rparr>)]"

text \<open>
  Two ways a library can treat a design: a fit that returns for every design (its result
  here is just the problem it was given), and a fit that raises when two columns of the
  design are equal.
\<close>

definition fit_always :: "fl list \<Rightarrow> design \<Rightarrow> error + fl list \<times> design" where
  "fit_always y x = Inr (y, x)"

definition fit_strict :: "fl list \<Rightarrow> design \<Rightarrow> error + fl list \<times> design" where
  "fit_strict y x = (if distinct (map snd x) then Inr (y, x) else Inl LinAlgError)"

text \<open>A fit that reports the number of rows of the target, and nothing else of interest.\<close>

definition fit_count :: "fl list \<Rightarrow> design \<Rightarrow> error + reg" where
  "fit_count y x = Inr (reg_example\<lparr>nobs := length y\<rparr>)"

text \<open>
  Four months of returns in which the target follows the S&P 500 exactly and the other
  two factors are uncorrelated with it, and the least-squares fit of this table: the
  coefficient of SP500 is 1 when the design has that column, and otherwise the intercept
  is the mean of the target; all other coefficients are 0.
\<close>

definition returns_nested :: "nat frame" where
  "returns_nested =
     [(24289, \<lparr>stock = Fin (1 / 100), SP500 = Fin (1 / 100), VW = Fin (1 / 100), TYX = Fin (1 / 100)\<rparr>),
      (24290, \<lparr>stock = Fin (2 / 100), SP500 = Fin (2 / 100), VW = Fin (- 1 / 100), TYX = Fin (- 2 / 100)\<rparr>),
      (24291, \<lparr>stock = Fin (3 / 100), SP500 = Fin (3 / 100), VW = Fin (- 1 / 100), TYX = Fin (1 / 100)\<rparr>),
      (24292, \<lparr>stock = Fin (4 / 100), SP500 = Fin (4 / 100), VW = Fin (1 / 100), TYX = Fin 0\<rparr>)]"

definition coef_exact :: "fl list \<Rightarrow> design \<Rightarrow> string \<Rightarrow> real" where
  "coef_exact y x name =
     (if ''SP500'' \<in> set (map fst x) then (if name = ''SP500'' then 1 else 0)
      else (if name = ''const'' then mean (map the_real y) else 0))"

definition fit_exact :: "fl list \<Rightarrow> design \<Rightarrow> error + reg" where
  "fit_exact y x =
     (let b = map (\<lambda>(name, col). coef_exact y x name) x;
          yr = map the_real y
      in Inr \<lparr>params = map (\<lambda>(name, col). (name, Fin (coef_exact y x name))) x,
              bse = map (\<lambda>(name, col). (name, NaN)) x,
              pvalues = map (\<lambda>(name, col). (name, NaN)) x,
              mse_resid = NaN,
              rsquared = fl_sub (Fin 1) (fl_div (Fin (ssr yr (real_cols x) b)) (Fin (centered_tss yr))),
              nobs = length y\<rparr>)"

text \<open>
  Two tables with a constant target: four months in which the stock returns one percent
  every month, and the one-row table that \<open>load_data\<close> returns for two trading days in
  consecutive months.  On a constant target the least-squares fit has the target's mean as
  intercept and all other coefficients 0.
\<close>

definition returns_flat_target :: "nat frame" where
  "returns_flat_target =
     [(24289, \<lparr>stock = Fin (1 / 100), SP500 = Fin (1 / 100), VW = Fin (1 / 100), TYX = Fin (1 / 100)\<rparr>),
      (24290, \<lparr>stock = Fin (1 / 100), SP500 = Fin (2 / 100), VW = Fin (- 1 / 100), TYX = Fin (- 2 / 100)\<rparr>),
      (24291, \<lparr>stock = Fin (1 / 100), SP500 = Fin (3 / 100), VW = Fin (- 1 / 100), TYX = Fin (1 / 100)\<rparr>),
      (24292, \<lparr>stock = Fin (1 / 100), SP500 = Fin (4 / 100), VW = Fin (1 / 100), TYX = Fin 0\<rparr>)]"

definition returns_one_row :: "nat frame" where
  "returns_one_row = [(24289, \<lparr>stock = Fin 0, SP500 = Fin 0, VW = Fin 0, TYX = Fin 0\<rparr>)]"

definition coef_mean :: "fl list \<Rightarrow> string \<Rightarrow> real" where
  "coef_mean y name = (if name = ''const'' then mean (map the_real y) else 0)"

definition fit_mean :: "fl list \<Rightarrow> design \<Rightarrow> error + reg" where
  "fit_mean y x =
     (let b = map (\<lambda>(name, col). coef_mean y name) x;
          yr = map the_real y
      in Inr \<lparr>params = map (\<lambda>(name, col). (name, Fin (coef_mean y name))) x,
              bse = map (\<lambda>(name, col). (name, NaN)) x,
              pvalues = map (\<lambda>(name, col). (name, NaN)) x,
              mse_resid = NaN,
              rsquared = fl_sub (Fin 1) (fl_div (Fin (ssr yr (real_cols x) b)) (Fin (centered_tss yr))),
              nobs = length y\<rparr>)"

section \<open>Properties of the table formatter\<close>

lemma pdf_create_cell_value_eq: "pdf_create_cell_value r v = create_cell_value r v"
  by (simp add: pdf_create_cell_value_def create_cell_value_def)

lemma pdf_row_eq: "pdf_row i r = map snd (df_row i r)"
  by (simp add: pdf_row_def df_row_def pdf_create_cell_value_eq)

lemma df_row_keys:
  "map fst (df_row i r) = [''Regression'', ''Int.'', ''S&P 500'', ''Val.-Wgtd'', ''30 Yr Treas.'', key_SR2]"
  by (simp add: df_row_def)

lemma pdf_rows_eq: "pdf_rows i rs = map (map snd) (df_rows i rs)"
  by (induction rs arbitrary: i) (simp_all add: pdf_row_eq)

lemma df_rows_keys:
  "row \<in> set (df_rows i rs) \<Longrightarrow>
   map fst row = [''Regression'', ''Int.'', ''S&P 500'', ''Val.-Wgtd'', ''30 Yr Treas.'', key_SR2]"
  by (induction rs arbitrary: i) (auto simp add: df_row_keys)

lemma pdf_rows_labels:
  "map hd (pdf_rows i rs) = map (\<lambda>j. ''('' @ str_nat j @ '')'') [i..<i + length rs]"
proof (induction rs arbitrary: i)
  case Nil
  then show ?case by simp
next
  case (Cons r rs)
  have "[i..<i + length (r # rs)] = i # [Suc i..<Suc i + length rs]"
    using upt_conv_Cons [of i "i + length (r # rs)"] by simp
  then show ?case using Cons.IH [of "Suc i"] by (simp add: pdf_row_def)
qed

text \<open>
  Claim C4.  For every fitted model \<open>r\<close> and every variable name \<open>v\<close> (in particular
  the four canonical ones), the table cell is the empty string when \<open>v\<close> is not in the
  index of the model's parameters; when it is, with coefficient \<open>c\<close>, standard error \<open>s\<close>
  and p-value \<open>p\<close>, the cell is the coefficient with four decimals, the stars of \<open>p\<close>
  (three below 0.01, two below 0.05, one below 0.10, none otherwise), a space, and the
  standard error with four decimals in parentheses.  Coefficient 1.23456 with standard
  error 0.04321 and p-value 0.002 gives the string \<open>1.2346*** (0.0432)\<close>.
\<close>

theorem create_cell_value_format:
  "(map_of (params r) v = None \<longrightarrow> create_cell_value r v = []) \<and>
   (map_of (params r) v = Some c \<and> map_of (bse r) v = Some s \<and> map_of (pvalues r) v = Some p
      \<longrightarrow> create_cell_value r v = spec_cell c s p) \<and>
   spec_cell (Fin (123456 / 100000)) (Fin (4321 / 100000)) (Fin (2 / 1000)) = ''1.2346*** (0.0432)''"
  by (simp add: create_cell_value_def spec_cell_def significance_level_def series_get_def
      round_half_even_def frac4_def digit_def str_nat.simps)

theorem create_cell_value_format_witness:
  "create_cell_value reg_example ''SP500'' = ''1.2346*** (0.0432)'' \<and>
   create_cell_value reg_example ''VW'' = [] \<and>
   create_cell_value reg_example ''const'' = ''0.0312 (0.5000)''"
  using create_cell_value_format [of reg_example "''SP500''" "Fin (123456 / 100000)" "Fin (4321 / 100000)" "Fin (2 / 1000)"]
    create_cell_value_format [of reg_example "''VW''"]
    create_cell_value_format [of reg_example "''const''" "Fin (1 / 32)" "Fin (1 / 2)" NaN]
  by (simp add: reg_example_def spec_cell_def significance_level_def
      round_half_even_def frac4_def digit_def str_nat.simps)

text \<open>
  Claim C9.  For every list of fitted models, the rows of the on-screen table and the
  rows below the header of the PDF table hold the same strings, cell by cell (label, the
  four variable cells, the combined residual-SE and R-squared cell); every on-screen row
  has the PDF header as its column keys; and the rows are labelled \<open>(1)\<close>, \<open>(2)\<close>, ...
  in the order of the models.
\<close>

theorem regression_tables_agree:
  "map (map snd) (create_regression_table_dataframe regs) = tl (pdf_table_data regs) \<and>
   (\<forall>row \<in> set (create_regression_table_dataframe regs). map fst row = hd (pdf_table_data regs)) \<and>
   map hd (tl (pdf_table_data regs)) = map (\<lambda>j. ''('' @ str_nat j @ '')'') [1..<Suc (length regs)]"
  using pdf_rows_labels [of 1 regs]
  by (auto simp add: create_regression_table_dataframe_def pdf_table_data_def pdf_rows_eq df_rows_keys)

theorem regression_tables_agree_witness:
  "tl (pdf_table_data [reg_example]) =
     [[''(1)'', ''0.0312 (0.5000)'', ''1.2346*** (0.0432)'', [], [], ''0.5000, 0.9000'']] \<and>
   map (map snd) (create_regression_table_dataframe [reg_example]) =
     [[''(1)'', ''0.0312 (0.5000)'', ''1.2346*** (0.0432)'', [], [], ''0.5000, 0.9000'']]"
  using regression_tables_agree [of "[reg_example]"]
  by (simp add: pdf_table_data_def pdf_row_def pdf_create_cell_value_def reg_example_def series_get_def
      round_half_even_def frac4_def digit_def str_nat.simps real_sqrt_divide)

section \<open>Properties of the empirical distribution\<close>

lemma length_np_linspace: "length (np_linspace a b n) = n"
  by (simp add: np_linspace_def Let_def)

lemma np_linspace_unit_nth:
  assumes "1 < n" "i < n"
  shows "np_linspace 0 1 n ! i = real i / real (n - 1)"
proof -
  have pos: "0 < int n - 1" using assms by simp
  have ne: "(1::real) / real_of_int (int n - 1) \<noteq> 0" using assms by simp
  have r: "real_of_int (int n - 1) = real (n - 1)" using assms by (simp add: of_nat_diff)
  show ?thesis
  proof (cases "i = n - 1")
    case True
    then show ?thesis using assms pos ne by (simp add: np_linspace_def Let_def)
  next
    case False
    then show ?thesis using assms pos ne r by (simp add: np_linspace_def Let_def)
  qed
qed

lemma np_linspace_unit_one: "np_linspace 0 1 1 = [0]"
  by (simp add: np_linspace_def Let_def)

lemma fl_le_total: "fl_le x y \<or> fl_le y x"
  by (cases x; cases y) auto

lemma fl_le_trans: "fl_le x y \<Longrightarrow> fl_le y z \<Longrightarrow> fl_le x z"
  by (cases x; cases y; cases z) auto

lemma set_insort_fl: "set (insort_fl x xs) = insert x (set xs)"
  by (induction xs) auto

lemma mset_insort_fl: "mset (insort_fl x xs) = add_mset x (mset xs)"
  by (induction xs) auto

lemma sorted_insort_fl: "sorted_wrt fl_le xs \<Longrightarrow> sorted_wrt fl_le (insort_fl x xs)"
proof (induction xs)
  case Nil
  then show ?case by simp
next
  case (Cons y ys)
  show ?case
  proof (cases "fl_le x y")
    case True
    then show ?thesis using Cons.prems fl_le_trans by auto
  next
    case False
    then have "fl_le y x" using fl_le_total by blast
    then show ?thesis using Cons False by (auto simp add: set_insort_fl)
  qed
qed

lemma sorted_np_sort: "sorted_wrt fl_le (np_sort xs)"
  by (induction xs) (simp_all add: sorted_insort_fl)

lemma mset_np_sort: "mset (np_sort xs) = mset xs"
  by (induction xs) (simp_all add: mset_insort_fl)

lemma length_np_sort: "length (np_sort xs) = length xs"
  using mset_np_sort [of xs] by (metis size_mset)

text \<open>
  Claim C5.  The values plotted for a series are its non-missing values in ascending
  order, and the probability at position \<open>i\<close> of \<open>n\<close> sorted values is \<open>i / (n - 1)\<close>.
  For \<open>n > 1\<close> the probabilities are non-decreasing, lie between 0 and 1, start at 0
  and end at 1; for \<open>n = 1\<close> the single probability is 0 (numpy does not divide by
  \<open>n - 1 = 0\<close> there).
\<close>

theorem empirical_cdf_properties:
  "sorted_wrt fl_le (cdf_sorted s) \<and>
   mset (cdf_sorted s) = mset (dropna_series s) \<and>
   length (cdf_probabilities s) = length (dropna_series s) \<and>
   (1 < length (dropna_series s) \<longrightarrow>
      (\<forall>i < length (dropna_series s).
         cdf_probabilities s ! i = real i / real (length (dropna_series s) - 1)) \<and>
      sorted (cdf_probabilities s) \<and>
      (\<forall>p \<in> set (cdf_probabilities s). 0 \<le> p \<and> p \<le> 1) \<and>
      hd (cdf_probabilities s) = 0 \<and> last (cdf_probabilities s) = 1) \<and>
   (length (dropna_series s) = 1 \<longrightarrow> cdf_probabilities s = [0])"
proof -
  define n where "n = length (dropna_series s)"
  define ps where "ps = cdf_probabilities s"
  have ps: "ps = np_linspace 0 1 n"
    by (simp add: ps_def n_def cdf_probabilities_def cdf_sorted_def length_np_sort)
  have len: "length ps = n" by (simp add: ps length_np_linspace)
  have one: "n = 1 \<Longrightarrow> ps = [0]" using np_linspace_unit_one by (simp add: ps)
  have many: "(\<forall>i < n. ps ! i = real i / real (n - 1)) \<and> sorted ps \<and>
      (\<forall>p \<in> set ps. 0 \<le> p \<and> p \<le> 1) \<and> hd ps = 0 \<and> last ps = 1" if n: "1 < n"
  proof -
    have nth: "ps ! i = real i / real (n - 1)" if "i < n" for i
      using np_linspace_unit_nth [OF n that] by (simp add: ps)
    have srt: "sorted ps"
      unfolding sorted_iff_nth_mono
    proof (intro allI impI)
      fix i j assume "i \<le> j" "j < length ps"
      then have "i < n" "j < n" using len by simp_all
      then show "ps ! i \<le> ps ! j" using nth \<open>i \<le> j\<close> n by (simp add: divide_right_mono)
    qed
    have rng: "0 \<le> p \<and> p \<le> 1" if "p \<in> set ps" for p
    proof -
      from that obtain i where i: "i < n" "p = ps ! i" using len by (metis in_set_conv_nth)
      then have "p = real i / real (n - 1)" using nth by simp
      moreover have "real i \<le> real (n - 1)" using i n by simp
      ultimately show ?thesis using n by simp
    qed
    have ne: "ps \<noteq> []" using len n by auto
    have h: "hd ps = 0" using nth [of 0] n ne by (simp add: hd_conv_nth)
    have l: "last ps = 1" using nth [of "n - 1"] n ne len by (simp add: last_conv_nth)
    show ?thesis using nth srt rng h l by blast
  qed
  show ?thesis
    using len one many
    by (simp add: ps_def [symmetric] n_def [symmetric] cdf_sorted_def sorted_np_sort mset_np_sort)
qed

theorem empirical_cdf_properties_witness:
  "plot_cdf_points series_example = [(Fin (- 1 / 100), 0), (Fin (2 / 100), 1 / 2), (Fin (3 / 100), 1)] \<and>
   cdf_probabilities series_example ! 1 = 1 / 2 \<and>
   hd (cdf_probabilities series_example) = 0 \<and> last (cdf_probabilities series_example) = 1 \<and>
   cdf_probabilities [Fin 5] = [0]"
proof -
  have l: "length (dropna_series series_example) = 3"
    by (simp add: series_example_def dropna_series_def isna_def)
  have p: "cdf_probabilities series_example = [0, 1 / 2, 1]"
    by (simp add: cdf_probabilities_def cdf_sorted_def series_example_def dropna_series_def isna_def
        np_linspace_def Let_def upt_rec)
  have l1: "length (dropna_series [Fin 5]) = 1" by (simp add: dropna_series_def isna_def)
  show ?thesis
    using empirical_cdf_properties [of series_example] empirical_cdf_properties [of "[Fin 5]"] l l1 p
    by (simp add: plot_cdf_points_def cdf_sorted_def series_example_def dropna_series_def isna_def)
qed

section \<open>Properties of the normal fit and of the standard deviations\<close>

lemma dropna_map_Fin: "dropna_series (map Fin xs) = map Fin xs"
  by (induction xs) (simp_all add: dropna_series_def isna_def)

lemma all_finite_map_Fin: "list_all isfinite (map Fin xs)"
  by (induction xs) simp_all

lemma the_real_map_Fin: "map the_real (map Fin xs) = xs"
  by (induction xs) simp_all

lemma the_real_comp_Fin: "the_real \<circ> Fin = id"
  by (rule ext) simp

lemma norm_fit_finite:
  "xs \<noteq> [] \<Longrightarrow> norm_fit (map Fin xs) = Inr (Fin (mean xs), Fin (population_sd xs))"
  by (simp add: norm_fit_def all_finite_map_Fin the_real_comp_Fin Let_def population_sd_def mean_def)

lemma mean_replicate: "0 < n \<Longrightarrow> mean (replicate n a) = a"
  by (simp add: mean_def sum_list_replicate)

lemma population_sd_replicate: "0 < n \<Longrightarrow> population_sd (replicate n a) = 0"
  by (simp add: population_sd_def mean_replicate map_replicate_const sum_list_replicate)

text \<open>
  Claim C8, as the code has it.  On a non-empty series of finite values the normal fit
  returns the mean and the standard deviation with divisor \<open>n\<close>; on \<open>n > 0\<close> copies of one
  value it returns that value and a standard deviation of 0; on the empty series it does
  not fail (it returns a pair, see the counterexample below).
\<close>

theorem norm_fit_estimates:
  "(xs \<noteq> [] \<longrightarrow> norm_fit (map Fin xs) = Inr (Fin (mean xs), Fin (population_sd xs))) \<and>
   (0 < n \<longrightarrow> norm_fit (replicate n (Fin a)) = Inr (Fin a, Fin 0)) \<and>
   (\<forall>e. norm_fit [] \<noteq> Inl e)"
proof -
  have "norm_fit (replicate n (Fin a)) = Inr (Fin a, Fin 0)" if "0 < n"
    using norm_fit_finite [of "replicate n a"] that
    by (simp add: mean_replicate population_sd_replicate)
  moreover have "\<forall>e. norm_fit [] \<noteq> Inl e" by (simp add: norm_fit_def)
  ultimately show ?thesis using norm_fit_finite by blast
qed

text \<open>
  The claim's failure on an empty input does not happen: the fit of the empty series is the
  pair \<open>(nan, nan)\<close>, not an error.
\<close>

theorem norm_fit_empty_counterexample: "norm_fit [] = Inr (NaN, NaN)"
  by (simp add: norm_fit_def)

theorem norm_fit_estimates_witness:
  "norm_fit [Fin 1, Fin 3] = Inr (Fin 2, Fin 1) \<and>
   norm_fit [Fin 7, Fin 7, Fin 7] = Inr (Fin 7, Fin 0)"
  using norm_fit_estimates [of "[1, 3]" 3 7]
  by (simp add: mean_def population_sd_def numeral_3_eq_3)

lemma sq_le_sum_sq:
  "c \<in> set xs \<Longrightarrow> (c - m)\<^sup>2 \<le> sum_list (map (\<lambda>x. (x - m)\<^sup>2) xs)" for m :: real
proof (induction xs)
  case Nil
  then show ?case by simp
next
  case (Cons y ys)
  have nn: "0 \<le> sum_list (map (\<lambda>x. (x - m)\<^sup>2) ys)"
    by (rule sum_list_nonneg) auto
  show ?case
  proof (cases "c = y")
    case True
    then show ?thesis using nn by simp
  next
    case False
    then have "c \<in> set ys" using Cons.prems by simp
    then have "(c - m)\<^sup>2 \<le> sum_list (map (\<lambda>x. (x - m)\<^sup>2) ys)" by (rule Cons.IH)
    moreover have "0 \<le> (y - m)\<^sup>2" by simp
    ultimately have "(c - m)\<^sup>2 \<le> (y - m)\<^sup>2 + sum_list (map (\<lambda>x. (x - m)\<^sup>2) ys)"
      by linarith
    then show ?thesis by simp
  qed
qed

lemma sum_sq_pos:
  assumes "a \<in> set xs" "b \<in> set xs" "a \<noteq> (b::real)"
  shows "0 < sum_list (map (\<lambda>x. (x - m)\<^sup>2) xs)"
proof -
  from assms obtain c where c: "c \<in> set xs" "c \<noteq> m" by metis
  have "0 < (c - m)\<^sup>2" using c by simp
  moreover have "(c - m)\<^sup>2 \<le> sum_list (map (\<lambda>x. (x - m)\<^sup>2) xs)"
    using c(1) by (rule sq_le_sum_sq)
  ultimately show ?thesis by linarith
qed

lemma pandas_std_finite:
  "2 \<le> length xs \<Longrightarrow> pandas_std (map Fin xs) = Fin (sample_sd xs)"
  by (simp add: pandas_std_def dropna_map_Fin all_finite_map_Fin the_real_comp_Fin Let_def
      sample_sd_def)

text \<open>
  Claim C10, as the code has it.  For a series of finite values with at least two
  observations that are not all equal, the normal-distribution section's \<open>sigma\<close> is the
  standard deviation with divisor \<open>n\<close>, the CDF section's \<open>Std Dev\<close> is the one with
  divisor \<open>n - 1\<close>, and the second is strictly larger than the first (as numbers, before
  they are printed with four decimals).
\<close>

theorem std_conventions_differ:
  assumes "2 \<le> length xs" and "a \<in> set xs" and "b \<in> set xs" and "a \<noteq> b"
  shows "norm_fit (dropna_series (map Fin xs)) = Inr (Fin (mean xs), Fin (population_sd xs)) \<and>
         pandas_std (dropna_series (map Fin xs)) = Fin (sample_sd xs) \<and>
         population_sd xs < sample_sd xs"
proof -
  define S where "S = sum_list (map (\<lambda>x. (x - mean xs)\<^sup>2) xs)"
  have S: "0 < S" unfolding S_def using sum_sq_pos assms(2-4) by blast
  have n: "0 < real (length xs) - 1" "real (length xs) - 1 < real (length xs)"
    using assms(1) by simp_all
  have "S / real (length xs) < S / (real (length xs) - 1)"
    using S n by (simp add: frac_less2)
  then have "population_sd xs < sample_sd xs"
    by (simp add: population_sd_def sample_sd_def S_def)
  moreover have "xs \<noteq> []" using assms(1) by auto
  ultimately show ?thesis
    using assms(1) by (simp add: dropna_map_Fin norm_fit_finite pandas_std_finite)
qed

text \<open>
  The printed strings need not differ: rounded to four decimals, both standard deviations
  of a series whose two values differ by 0.00002 print as \<open>0.0000\<close>.
\<close>

lemma fmt4_small: "0 \<le> x \<Longrightarrow> x < 1 / 20000 \<Longrightarrow> fmt4 (Fin x) = ''0.0000''"
proof -
  assume a: "0 \<le> x" "x < 1 / 20000"
  have f: "\<lfloor>x * 10000\<rfloor> = 0" using a by (simp add: floor_eq_iff)
  have "round_half_even (\<bar>x\<bar> * 10000) = 0"
    using a f by (simp add: round_half_even_def Let_def)
  then show ?thesis using a by (simp add: frac4_def digit_def str_nat.simps)
qed

theorem printed_std_counterexample:
  "printed_sigma flat_series = Inr ''0.0000'' \<and> printed_std_dev flat_series = ''0.0000''"
proof -
  have d: "dropna_series flat_series = map Fin [0, 2 / 100000]"
    by (simp add: flat_series_def dropna_series_def isna_def)
  have m: "mean [0, 2 / 100000 :: real] = 1 / 100000" by (simp add: mean_def)
  have p: "population_sd [0, 2 / 100000] < 1 / 20000"
    unfolding population_sd_def m by (rule real_less_lsqrt) (simp_all add: power2_eq_square)
  have s: "sample_sd [0, 2 / 100000] < 1 / 20000"
    unfolding sample_sd_def m by (rule real_less_lsqrt) (simp_all add: power2_eq_square)
  have p0: "0 \<le> population_sd [0, 2 / 100000]" by (simp add: population_sd_def)
  have s0: "0 \<le> sample_sd [0, 2 / 100000]" by (simp add: sample_sd_def)
  have "norm_fit (dropna_series flat_series) = Inr (Fin (mean [0, 2 / 100000]), Fin (population_sd [0, 2 / 100000]))"
    unfolding d by (rule norm_fit_finite) simp
  then have "printed_sigma flat_series = Inr (fmt4 (Fin (population_sd [0, 2 / 100000])))"
    unfolding printed_sigma_def by simp
  then have 1: "printed_sigma flat_series = Inr ''0.0000''"
    using fmt4_small [OF p0 p] by simp
  have "pandas_std (map Fin [0, 2 / 100000]) = Fin (sample_sd [0, 2 / 100000])"
    by (rule pandas_std_finite) simp
  then have "printed_std_dev flat_series = fmt4 (Fin (sample_sd [0, 2 / 100000]))"
    unfolding printed_std_dev_def d by simp
  then have 2: "printed_std_dev flat_series = ''0.0000''"
    using fmt4_small [OF s0 s] by simp
  show ?thesis using 1 2 by simp
qed

theorem std_conventions_differ_witness:
  "norm_fit (dropna_series [Fin 1, Fin 3]) = Inr (Fin 2, Fin 1) \<and>
   pandas_std (dropna_series [Fin 1, Fin 3]) = Fin (sqrt 2) \<and> 1 < sqrt 2"
  using std_conventions_differ [of "[1, 3]" 1 3]
  by (simp add: mean_def population_sd_def sample_sd_def)

section \<open>Properties of \<open>load_data\<close>\<close>

lemma shift1_length: "length (shift1 df) = length df"
  by (cases df) (simp_all add: shift1_def)

lemma shift1_nth_0: "df \<noteq> [] \<Longrightarrow> shift1 df ! 0 = (fst (df ! 0), nan_row)"
  by (cases df) (simp_all add: shift1_def)

lemma shift1_nth_Suc:
  "Suc k < length df \<Longrightarrow> shift1 df ! Suc k = (fst (df ! Suc k), snd (df ! k))"
  by (simp add: shift1_def nth_butlast)

lemma log_ratio_rows:
  "np_log (df_div (map (\<lambda>m. (m, g m)) [a..<c]) (shift1 (map (\<lambda>m. (m, g m)) [a..<c]))) =
   (if a < c
    then (a, map_row fl_log (map2_row fl_div (g a) nan_row)) #
         map (\<lambda>m. (m, map_row fl_log (map2_row fl_div (g m) (g (m - 1))))) [Suc a..<c]
    else [])"
  (is "?L = ?R")
proof (cases "a < c")
  case False
  then show ?thesis by (simp add: np_log_def df_div_def shift1_def)
next
  case True
  define M where "M = map (\<lambda>m. (m, g m)) [a..<c]"
  have lenM: "length M = c - a" by (simp add: M_def)
  have lenL: "length ?L = c - a"
    by (simp add: np_log_def df_div_def shift1_length M_def [symmetric] lenM)
  have lenR: "length ?R = c - a" using True by simp
  have "?L ! k = ?R ! k" if k: "k < c - a" for k
  proof -
    have kz: "k < length (zip M (shift1 M))" using k by (simp add: shift1_length lenM)
    have L: "?L ! k = (fst (M ! k), map_row fl_log (map2_row fl_div (snd (M ! k)) (snd (shift1 M ! k))))"
      using kz by (simp add: np_log_def df_div_def M_def [symmetric] case_prod_beta shift1_length)
    have Mk: "M ! k = (a + k, g (a + k))" using k by (simp add: M_def)
    show ?thesis
    proof (cases k)
      case 0
      have "M \<noteq> []" using lenM True by auto
      then show ?thesis using L Mk 0 True by (simp add: shift1_nth_0)
    next
      case (Suc j)
      have "Suc j < length M" using k Suc lenM by simp
      then have "shift1 M ! Suc j = (fst (M ! Suc j), snd (M ! j))" by (rule shift1_nth_Suc)
      moreover have "M ! j = (a + j, g (a + j))" using k Suc by (simp add: M_def)
      moreover have "[Suc a..<c] ! j = Suc a + j" using k Suc by simp
      ultimately show ?thesis using L Mk Suc True k by simp
    qed
  qed
  then show ?thesis using lenL lenR by (intro nth_equalityI) simp_all
qed

lemma first_row_dropped: "row_hasna (map_row fl_log (map2_row fl_div r nan_row))"
proof -
  have "fl_div (stock r) NaN = NaN" by (cases "stock r") simp_all
  then show ?thesis by (simp add: row_hasna_def map_row_def map2_row_def nan_row_def isna_def)
qed

lemma return_row_eq:
  "map_row fl_log (map2_row fl_div (last_row (month_rows df m)) (last_row (month_rows df (m - 1)))) =
   return_row df m"
  by (simp add: map_row_def map2_row_def last_row_def return_row_def monthly_return_def
      month_end_price_def)

lemma returns_refine:
  "dropna (np_log (df_div (resample_ME_last df) (shift1 (resample_ME_last df)))) = spec_return_series df"
proof (cases df)
  case Nil
  then show ?thesis
    by (simp add: resample_ME_last_def spec_return_series_def shift1_def df_div_def np_log_def dropna_def)
next
  case (Cons x xs)
  define a where "a = month_of (fst (hd df))"
  define c where "c = Suc (month_of (fst (last df)))"
  define g where "g = (\<lambda>m. last_row (month_rows df m))"
  have R: "resample_ME_last df = map (\<lambda>m. (m, g m)) [a..<c]"
    using Cons by (simp add: resample_ME_last_def a_def c_def g_def)
  have S: "spec_return_series df =
      filter (\<lambda>(m, r). \<not> row_hasna r) (map (\<lambda>m. (m, return_row df m)) [Suc a..<c])"
    using Cons by (simp add: spec_return_series_def a_def c_def)
  have E: "map (\<lambda>m. (m, map_row fl_log (map2_row fl_div (g m) (g (m - 1))))) [Suc a..<c] =
           map (\<lambda>m. (m, return_row df m)) [Suc a..<c]"
    by (simp only: g_def return_row_eq)
  show ?thesis
    unfolding R S log_ratio_rows E
    by (simp add: dropna_def first_row_dropped)
qed

lemma dropna_complete: "\<forall>(d, r) \<in> set df. \<not> row_hasna r \<Longrightarrow> dropna df = df"
  by (induction df) (auto simp add: dropna_def)

lemma dropna_no_missing: "(i, r) \<in> set (dropna df) \<Longrightarrow> \<not> row_hasna r"
  by (auto simp add: dropna_def)

lemma length_spec_return_series:
  "length (spec_return_series df) \<le> month_of (fst (last df)) - month_of (fst (hd df))"
proof -
  define a where "a = month_of (fst (hd df))"
  define c where "c = Suc (month_of (fst (last df)))"
  have "length (spec_return_series df) \<le> length [Suc a..<c]"
    unfolding spec_return_series_def a_def [symmetric] c_def [symmetric]
    by (simp del: length_upt)
  also have "\<dots> = c - Suc a" by simp
  finally show ?thesis by (simp add: a_def c_def)
qed

lemmas frame_eval =
  dropna_def resample_ME_last_def month_rows_def last_row_def last_valid_def month_of_def
  shift1_def df_div_def np_log_def map_row_def map2_row_def row_hasna_def isna_def nan_row_def
  spec_return_series_def return_row_def monthly_return_def month_end_price_def

text \<open>
  Claim C2, as the code has it.  When the download returns a table, \<open>load_data\<close> first
  drops every daily row with a missing price, and from the remaining rows produces the
  series of the specification: month-end prices (the last observation within each
  calendar month), returns \<open>ln (P\<^sub>t / P\<^sub>t\<^sub>-\<^sub>1)\<close> from the second month on, rows with a
  missing value dropped.  No row of the result has a missing value.  For a table without
  missing prices this is the specification's series of the table itself.
\<close>

theorem load_data_steps:
  assumes "yf_download [t, ''^GSPC'', ''^W5000'', ''^TYX''] s e = Inr raw"
  shows "load_data yf_download t s e = Inr (spec_return_series (dropna raw)) \<and>
         (\<forall>(m, r) \<in> set (spec_return_series (dropna raw)). \<not> row_hasna r) \<and>
         ((\<forall>(d, r) \<in> set raw. \<not> row_hasna r) \<longrightarrow>
            load_data yf_download t s e = Inr (spec_return_series raw))"
proof -
  have 1: "load_data yf_download t s e = Inr (spec_return_series (dropna raw))"
    using assms by (simp add: load_data_def Let_def returns_refine)
  have 2: "\<forall>(m, r) \<in> set (spec_return_series (dropna raw)). \<not> row_hasna r"
    using dropna_no_missing [of _ _ "np_log (df_div (resample_ME_last (dropna raw)) (shift1 (resample_ME_last (dropna raw))))"]
    unfolding returns_refine by auto
  show ?thesis using 1 2 by (auto simp add: dropna_complete)
qed

theorem load_data_steps_witness:
  "load_data download_gap ''MAS'' ''2024-01-01'' ''2024-03-01'' =
     Inr [(24289, \<lparr>stock = Fin (ln (12 / 10)), SP500 = Fin 0, VW = Fin 0, TYX = Fin 0\<rparr>)]"
proof -
  have "spec_return_series (dropna raw_gap) =
     [(24289, \<lparr>stock = Fin (ln (12 / 10)), SP500 = Fin 0, VW = Fin 0, TYX = Fin 0\<rparr>)]"
    by (simp add: raw_gap_def frame_eval)
  then show ?thesis
    using load_data_steps [of download_gap "''MAS''" "''2024-01-01''" "''2024-03-01''" raw_gap]
    by (simp add: download_gap_def)
qed

text \<open>
  With a missing daily price the result is not the specification's series of the fetched
  table: the incomplete last day of January is dropped before resampling, so January's
  month-end price of the stock is 10, not 11.
\<close>

theorem load_data_order_counterexample:
  "load_data download_gap ''MAS'' ''2024-01-01'' ''2024-03-01'' \<noteq> Inr (spec_return_series raw_gap)"
proof -
  have c: "load_data download_gap ''MAS'' ''2024-01-01'' ''2024-03-01'' =
     Inr [(24289, \<lparr>stock = Fin (ln (12 / 10)), SP500 = Fin 0, VW = Fin 0, TYX = Fin 0\<rparr>)]"
    by (simp add: load_data_def download_gap_def raw_gap_def frame_eval)
  have s: "spec_return_series raw_gap =
     [(24289, \<lparr>stock = Fin (ln (12 / 11)), SP500 = Fin 0, VW = Fin 0, TYX = Fin 0\<rparr>)]"
    by (simp add: raw_gap_def frame_eval)
  have "ln (12 / 10 :: real) \<noteq> ln (12 / 11)" by simp
  then show ?thesis unfolding c s by simp
qed

text \<open>
  Claim C1, as the code has it.  \<open>load_data\<close> fails exactly when the download fails, with
  the download's own error.  When the download returns a table, \<open>load_data\<close> returns a
  series, whatever its length; the series has at most as many rows as there are months
  between the first and the last complete daily row, so it can have fewer than two.
\<close>

theorem load_data_failure:
  "(load_data yf_download t s e = Inl err \<longleftrightarrow>
      yf_download [t, ''^GSPC'', ''^W5000'', ''^TYX''] s e = Inl err) \<and>
   (yf_download [t, ''^GSPC'', ''^W5000'', ''^TYX''] s e = Inr raw \<longrightarrow>
      (\<exists>returns. load_data yf_download t s e = Inr returns \<and>
         length returns \<le> month_of (fst (last (dropna raw))) - month_of (fst (hd (dropna raw)))))"
proof -
  have "load_data yf_download t s e = Inr (spec_return_series (dropna raw))"
    if "yf_download [t, ''^GSPC'', ''^W5000'', ''^TYX''] s e = Inr raw"
    using that by (simp add: load_data_def Let_def returns_refine)
  moreover have "load_data yf_download t s e = Inl err \<longleftrightarrow>
      yf_download [t, ''^GSPC'', ''^W5000'', ''^TYX''] s e = Inl err"
    by (simp add: load_data_def Let_def split: sum.splits)
  ultimately show ?thesis using length_spec_return_series [of "dropna raw"] by auto
qed

theorem load_data_failure_witness:
  "load_data download_unreachable ''MAS'' ''2024-01-01'' ''2024-03-01'' = Inl ValueError \<and>
   (\<exists>returns. load_data download_two_days ''MAS'' ''2024-01-01'' ''2024-03-01'' = Inr returns \<and>
      length returns \<le> 1)"
proof -
  have m: "month_of (fst (last (dropna raw_two_days))) - month_of (fst (hd (dropna raw_two_days))) = 1"
    by (simp add: raw_two_days_def frame_eval)
  show ?thesis
    using load_data_failure [of download_unreachable "''MAS''" "''2024-01-01''" "''2024-03-01''" ValueError]
      load_data_failure [of download_two_days "''MAS''" "''2024-01-01''" "''2024-03-01''" _ raw_two_days] m
    by (simp add: download_unreachable_def download_two_days_def)
qed

text \<open>
  Fewer than two rows remain and \<open>load_data\<close> does not fail: two trading days in two
  consecutive months give a series of one row.
\<close>

theorem load_data_one_row_counterexample:
  "load_data download_two_days ''MAS'' ''2024-01-01'' ''2024-03-01'' =
     Inr [(24289, \<lparr>stock = Fin 0, SP500 = Fin 0, VW = Fin 0, TYX = Fin 0\<rparr>)]"
  by (simp add: load_data_def download_two_days_def raw_two_days_def frame_eval)

section \<open>Properties of \<open>run_regressions\<close>\<close>

text \<open>
  Claim C3, as the code has it.  \<open>run_regressions\<close> is all or nothing: when every one of
  the five fits returns, the result is the list of the five results in model order; when
  some fit raises, the result is the exception of the first design whose fit raises, and
  no result of any model is returned.
\<close>

theorem run_regressions_all_or_nothing:
  "run_regressions ols_fit returns =
     (case find (\<lambda>x. isl (ols_fit (column stock returns) x)) (five_designs returns) of
        None \<Rightarrow> Inr (map (\<lambda>x. projr (ols_fit (column stock returns) x)) (five_designs returns))
      | Some x \<Rightarrow> Inl (projl (ols_fit (column stock returns) x)))"
  by (simp add: run_regressions_def five_designs_def Let_def split: sum.splits)

lemmas design_eval =
  five_designs_def design1_def design2_def design3_def design4_def design5_def add_constant_def
  safe_is_const_def column_def nrows_def

theorem run_regressions_all_or_nothing_witness:
  "run_regressions fit_always returns_collinear =
     Inr (map (Pair (column stock returns_collinear)) (five_designs returns_collinear))"
  using run_regressions_all_or_nothing [of fit_always returns_collinear]
  by (simp add: fit_always_def five_designs_def)

text \<open>
  On a table whose factors SP500 and VW coincide, the designs of models 4 and 5 are
  rank-deficient.  With a fit that returns on every design, \<open>run_regressions\<close> returns five
  results and signals nothing.  With a fit that raises on a design with two equal columns,
  model 1 fits, model 4 raises, and \<open>run_regressions\<close> as a whole ends in that exception:
  the results of models 1 to 3 are not returned.
\<close>

theorem run_regressions_isolation_counterexample:
  "run_regressions fit_always returns_collinear =
     Inr (map (Pair (column stock returns_collinear)) (five_designs returns_collinear)) \<and>
   fit_strict (column stock returns_collinear) (design1 returns_collinear) =
     Inr (column stock returns_collinear, design1 returns_collinear) \<and>
   fit_strict (column stock returns_collinear) (design4 returns_collinear) = Inl LinAlgError \<and>
   run_regressions fit_strict returns_collinear = Inl LinAlgError"
  by (simp add: run_regressions_def Let_def fit_always_def fit_strict_def returns_collinear_def design_eval)

lemma length_column: "length (column c returns) = length returns"
  by (simp add: column_def)

text \<open>
  Claim C6.  Given that a fit reports as \<open>nobs\<close> the number of rows of the target it was
  given (as statsmodels does), whenever \<open>run_regressions\<close> returns, it returns five models
  and each reports the same observation count: the number of rows of the return table.
\<close>

theorem observation_count_identical:
  assumes "\<forall>y x r. ols_fit y x = Inr r \<longrightarrow> nobs r = length y"
    and "run_regressions ols_fit returns = Inr rs"
  shows "length rs = 5 \<and> (\<forall>r \<in> set rs. nobs r = length returns)"
proof -
  from assms(2) obtain r1 r2 r3 r4 r5 where rs: "rs = [r1, r2, r3, r4, r5]"
    and f: "ols_fit (column stock returns) (design1 returns) = Inr r1"
      "ols_fit (column stock returns) (design2 returns) = Inr r2"
      "ols_fit (column stock returns) (design3 returns) = Inr r3"
      "ols_fit (column stock returns) (design4 returns) = Inr r4"
      "ols_fit (column stock returns) (design5 returns) = Inr r5"
    by (auto simp add: run_regressions_def Let_def split: sum.splits)
  have "nobs r = length returns" if "r \<in> set rs" for r
    using that rs f assms(1) length_column [of stock returns] by auto
  then show ?thesis using rs by simp
qed

theorem observation_count_identical_witness:
  "map nobs (projr (run_regressions fit_count returns_collinear)) = [3, 3, 3, 3, 3]"
proof -
  have c: "\<forall>y x r. fit_count y x = Inr r \<longrightarrow> nobs r = length y"
    by (auto simp add: fit_count_def)
  have r: "run_regressions fit_count returns_collinear =
      Inr (replicate 5 (reg_example\<lparr>nobs := length (column stock returns_collinear)\<rparr>))"
    by (simp add: run_regressions_def Let_def fit_count_def numeral_eq_Suc)
  have l: "length returns_collinear = 3" by (simp add: returns_collinear_def)
  show ?thesis
    using observation_count_identical [OF c r] l
    by (simp add: r numeral_eq_Suc)
qed

section \<open>Nested models: the full model has the largest R-squared\<close>

lemma orth_fitted:
  assumes "\<forall>c \<in> set cols. (\<Sum>i<n. c ! i * e i) = 0"
  shows "(\<Sum>i<n. fitted cols b i * e i) = 0"
  using assms
proof (induction cols arbitrary: b)
  case Nil
  then show ?case by simp
next
  case (Cons c cs)
  show ?case
  proof (cases b)
    case Nil
    then show ?thesis by simp
  next
    case (Cons b0 bs)
    have 1: "(\<Sum>i<n. c ! i * e i) = 0" using Cons.prems by simp
    have 2: "(\<Sum>i<n. fitted cs bs i * e i) = 0" using Cons.IH Cons.prems by simp
    have "(\<Sum>i<n. fitted (c # cs) (b0 # bs) i * e i) =
          b0 * (\<Sum>i<n. c ! i * e i) + (\<Sum>i<n. fitted cs bs i * e i)"
      by (simp add: distrib_right sum.distrib sum_distrib_left mult.assoc)
    then show ?thesis using 1 2 Cons by simp
  qed
qed

lemma ssr_min:
  assumes ne: "normal_equations y cols b"
    and g: "(\<Sum>i<length y. g i * (y ! i - fitted cols b i)) = 0"
  shows "ssr y cols b \<le> (\<Sum>i<length y. (y ! i - g i)\<^sup>2)"
proof -
  define n where "n = length y"
  define e where "e = (\<lambda>i. y ! i - fitted cols b i)"
  define d where "d = (\<lambda>i. fitted cols b i - g i)"
  have "\<forall>c \<in> set cols. (\<Sum>i<n. c ! i * e i) = 0"
    using ne by (simp add: normal_equations_def list_all_iff n_def e_def)
  then have f: "(\<Sum>i<n. fitted cols b i * e i) = 0" by (rule orth_fitted)
  have g': "(\<Sum>i<n. g i * e i) = 0" using g by (simp add: n_def e_def)
  have de: "(\<Sum>i<n. d i * e i) = 0"
    using f g' by (simp add: d_def left_diff_distrib sum_subtractf)
  have "(\<Sum>i<n. (y ! i - g i)\<^sup>2) = (\<Sum>i<n. (e i)\<^sup>2 + 2 * (d i * e i) + (d i)\<^sup>2)"
    by (rule sum.cong) (simp_all add: e_def d_def power2_eq_square algebra_simps)
  also have "\<dots> = (\<Sum>i<n. (e i)\<^sup>2) + 2 * (\<Sum>i<n. d i * e i) + (\<Sum>i<n. (d i)\<^sup>2)"
    by (simp add: sum.distrib sum_distrib_left)
  also have "\<dots> = (\<Sum>i<n. (e i)\<^sup>2) + (\<Sum>i<n. (d i)\<^sup>2)" using de by simp
  finally have "(\<Sum>i<n. (y ! i - g i)\<^sup>2) = ssr y cols b + (\<Sum>i<n. (d i)\<^sup>2)"
    by (simp add: ssr_def n_def e_def)
  moreover have "0 \<le> (\<Sum>i<n. (d i)\<^sup>2)" by (rule sum_nonneg) simp
  ultimately show ?thesis by (simp add: n_def)
qed


lemma add_constant_cols:
  "(name, col) \<in> set (add_constant x) \<Longrightarrow>
   (name, col) \<in> set x \<or> col = replicate (nrows x) (Fin 1)"
  by (auto simp add: add_constant_def split: if_splits)

lemma safe_is_const_real:
  assumes "safe_is_const s"
  shows "\<exists>c0. c0 \<noteq> 0 \<and> map the_real s = replicate (length s) c0"
proof -
  from assms have ne: "s \<noteq> []" and fin: "\<forall>x \<in> set s. isfinite x"
    and eq: "\<forall>x \<in> set s. x = hd s" and nz: "\<exists>x \<in> set s. x \<noteq> Fin 0"
    by (auto simp add: safe_is_const_def list_all_iff list_ex_iff)
  have "hd s \<in> set s" using ne by simp
  then have "isfinite (hd s)" using fin by blast
  then obtain c0 where c0: "hd s = Fin c0" by (cases "hd s") auto
  have "c0 \<noteq> 0" using nz eq c0 by auto
  moreover have "map the_real s = replicate (length s) c0"
    by (rule replicate_eqI) (use eq c0 in auto)
  ultimately show ?thesis by blast
qed

lemma add_constant_has_const:
  assumes "\<forall>(name, col) \<in> set x. length col = n" and "nrows x = n"
  shows "\<exists>(name, col) \<in> set (add_constant x). \<exists>c0. c0 \<noteq> 0 \<and> map the_real col = replicate n c0"
proof (cases "list_ex (\<lambda>(name, col). safe_is_const col) x")
  case True
  then obtain name col where m: "(name, col) \<in> set x" and c: "safe_is_const col"
    by (auto simp add: list_ex_iff)
  from safe_is_const_real [OF c] obtain c0 where "c0 \<noteq> 0" "map the_real col = replicate (length col) c0"
    by blast
  moreover have "length col = n" using assms(1) m by auto
  moreover have "(name, col) \<in> set (add_constant x)" using m True by (simp add: add_constant_def)
  ultimately have "\<exists>c0. c0 \<noteq> 0 \<and> map the_real col = replicate n c0"
    and "(name, col) \<in> set (add_constant x)" by auto
  then show ?thesis by (intro bexI [of _ "(name, col)"]) simp_all
next
  case False
  then have m: "(''const'', replicate n (Fin 1)) \<in> set (add_constant x)"
    using assms(2) by (simp add: add_constant_def)
  have "(1::real) \<noteq> 0 \<and> map the_real (replicate n (Fin 1)) = replicate n 1" by simp
  then have "\<exists>c0. c0 \<noteq> 0 \<and> map the_real (replicate n (Fin 1)) = replicate n c0" by blast
  then show ?thesis using m by (intro bexI [of _ "(''const'', replicate n (Fin 1))"]) simp_all
qed

lemma nested_ssr:
  assumes ne: "normal_equations yr (real_cols (design5 returns)) b5"
    and len: "length yr = length returns"
    and sub: "set base \<subseteq> set [(''SP500'', column SP500 returns), (''VW'', column VW returns),
                                  (''TYX'', column TYX returns)]"
    and nr: "nrows base = length returns"
  shows "ssr yr (real_cols (design5 returns)) b5 \<le> ssr yr (real_cols (add_constant base)) b"
proof -
  define n where "n = length returns"
  define base5 where "base5 = [(''SP500'', column SP500 returns), (''VW'', column VW returns),
                                  (''TYX'', column TYX returns)]"
  define e where "e = (\<lambda>i. yr ! i - fitted (real_cols (design5 returns)) b5 i)"
  have d5: "design5 returns = add_constant base5" by (simp add: design5_def base5_def)
  have l5: "\<forall>(name, col) \<in> set base5. length col = n"
    by (simp add: base5_def column_def n_def)
  have n5: "nrows base5 = n" by (simp add: base5_def nrows_def column_def n_def)
  have A: "(\<Sum>i<n. map the_real col ! i * e i) = 0" if "(name, col) \<in> set (design5 returns)" for name col
  proof -
    have "map the_real col \<in> set (real_cols (design5 returns))"
      using that by (force simp add: real_cols_def)
    then show ?thesis
      using ne len by (simp add: normal_equations_def list_all_iff e_def n_def)
  qed
  from add_constant_has_const [OF l5 n5] obtain name col c0
    where m: "(name, col) \<in> set (design5 returns)" and c0: "c0 \<noteq> 0"
      and r: "map the_real col = replicate n c0"
    unfolding d5 by blast
  have "(\<Sum>i<n. replicate n c0 ! i * e i) = 0" using A [OF m] r by simp
  then have "c0 * (\<Sum>i<n. e i) = 0" by (simp add: sum_distrib_left)
  then have B: "(\<Sum>i<n. e i) = 0" using c0 by simp
  have C: "\<forall>c \<in> set (real_cols (add_constant base)). (\<Sum>i<n. c ! i * e i) = 0"
  proof
    fix c assume "c \<in> set (real_cols (add_constant base))"
    then obtain name col where m: "(name, col) \<in> set (add_constant base)" and c: "c = map the_real col"
      by (auto simp add: real_cols_def)
    from add_constant_cols [OF m] show "(\<Sum>i<n. c ! i * e i) = 0"
    proof
      assume "(name, col) \<in> set base"
      then have "(name, col) \<in> set base5" using sub by (auto simp add: base5_def)
      moreover have "set base5 \<subseteq> set (add_constant base5)" by (auto simp add: add_constant_def)
      ultimately have "(name, col) \<in> set (design5 returns)" using d5 by auto
      then show ?thesis using A c by simp
    next
      assume "col = replicate (nrows base) (Fin 1)"
      then have "c = replicate n 1" using c nr by (simp add: n_def)
      then show ?thesis using B by simp
    qed
  qed
  have "(\<Sum>i<n. fitted (real_cols (add_constant base)) b i * e i) = 0"
    using C by (rule orth_fitted)
  then have "(\<Sum>i<length yr. fitted (real_cols (add_constant base)) b i *
                 (yr ! i - fitted (real_cols (design5 returns)) b5 i)) = 0"
    by (simp add: e_def n_def len)
  from ssr_min [OF ne this] show ?thesis by (simp add: ssr_def)
qed


lemma rsquared_le:
  assumes f5: "is_ols_fit (column stock returns) (design5 returns) r5"
    and f: "is_ols_fit (column stock returns) (add_constant base) r"
    and sub: "set base \<subseteq> set [(''SP500'', column SP500 returns), (''VW'', column VW returns),
                                  (''TYX'', column TYX returns)]"
    and nr: "nrows base = length returns"
    and tss: "0 < centered_tss (map the_real (column stock returns))"
  shows "isfinite (rsquared r) \<and> fl_ge (rsquared r5) (rsquared r)"
proof -
  define yr where "yr = map the_real (column stock returns)"
  define b5 where "b5 = map (\<lambda>(name, v). the_real v) (params r5)"
  define b where "b = map (\<lambda>(name, v). the_real v) (params r)"
  define t where "t = centered_tss yr"
  have t: "0 < t" using tss by (simp add: t_def yr_def)
  have ne5: "normal_equations yr (real_cols (design5 returns)) b5"
    using f5 by (simp add: is_ols_fit_def Let_def yr_def b5_def)
  have r5: "rsquared r5 = Fin (1 - ssr yr (real_cols (design5 returns)) b5 / t)"
    using f5 t by (simp add: is_ols_fit_def Let_def yr_def b5_def t_def)
  have r: "rsquared r = Fin (1 - ssr yr (real_cols (add_constant base)) b / t)"
    using f t by (simp add: is_ols_fit_def Let_def yr_def b_def t_def)
  have len: "length yr = length returns" by (simp add: yr_def column_def)
  have "ssr yr (real_cols (design5 returns)) b5 \<le> ssr yr (real_cols (add_constant base)) b"
    using ne5 len sub nr by (rule nested_ssr)
  then have "ssr yr (real_cols (design5 returns)) b5 / t \<le> ssr yr (real_cols (add_constant base)) b / t"
    using t by (simp add: divide_right_mono)
  then show ?thesis by (simp add: r r5)
qed

text \<open>
  Claim C7, as the code has it.  Suppose \<open>run_regressions\<close> returns, every fit it made
  is a least-squares fit
  in the sense of \<open>is_ols_fit\<close> (the coefficients satisfy the normal equations and
  R-squared is one minus the ratio of the residual to the total sum of squares), and the
  target is not constant, so that R-squared is defined.  Then five models are returned,
  every R-squared is a finite number, and the R-squared of model 5 is greater than or
  equal to the R-squared of every model.  The designs of models 1 to 4 are nested in that of
  model 5 also when \<open>add_constant\<close> skips the constant, because it does so only when a
  factor is itself a non-zero constant.
\<close>

theorem full_model_rsquared_largest:
  assumes run: "run_regressions ols_fit returns = Inr rs"
    and contract: "\<forall>x \<in> set (five_designs returns). \<forall>r.
        ols_fit (column stock returns) x = Inr r \<longrightarrow> is_ols_fit (column stock returns) x r"
    and tss: "0 < centered_tss (map the_real (column stock returns))"
  shows "length rs = 5 \<and>
         (\<forall>r \<in> set rs. isfinite (rsquared r) \<and> fl_ge (rsquared (rs ! 4)) (rsquared r))"
proof -
  from run obtain r1 r2 r3 r4 r5 where rs: "rs = [r1, r2, r3, r4, r5]"
    and f: "ols_fit (column stock returns) (design1 returns) = Inr r1"
      "ols_fit (column stock returns) (design2 returns) = Inr r2"
      "ols_fit (column stock returns) (design3 returns) = Inr r3"
      "ols_fit (column stock returns) (design4 returns) = Inr r4"
      "ols_fit (column stock returns) (design5 returns) = Inr r5"
    by (auto simp add: run_regressions_def Let_def split: sum.splits)
  have c1: "is_ols_fit (column stock returns) (design1 returns) r1"
    and c2: "is_ols_fit (column stock returns) (design2 returns) r2"
    and c3: "is_ols_fit (column stock returns) (design3 returns) r3"
    and c4: "is_ols_fit (column stock returns) (design4 returns) r4"
    and c5: "is_ols_fit (column stock returns) (design5 returns) r5"
    using contract f by (simp_all add: five_designs_def)
  have n: "length (column c returns) = length returns" for c
    by (simp add: column_def)
  have 1: "isfinite (rsquared r1) \<and> fl_ge (rsquared r5) (rsquared r1)"
    using c5 c1 [unfolded design1_def] _ _ tss by (rule rsquared_le) (simp_all add: nrows_def n)
  have 2: "isfinite (rsquared r2) \<and> fl_ge (rsquared r5) (rsquared r2)"
    using c5 c2 [unfolded design2_def] _ _ tss by (rule rsquared_le) (simp_all add: nrows_def n)
  have 3: "isfinite (rsquared r3) \<and> fl_ge (rsquared r5) (rsquared r3)"
    using c5 c3 [unfolded design3_def] _ _ tss by (rule rsquared_le) (simp_all add: nrows_def n)
  have 4: "isfinite (rsquared r4) \<and> fl_ge (rsquared r5) (rsquared r4)"
    using c5 c4 [unfolded design4_def] _ _ tss by (rule rsquared_le) (simp_all add: nrows_def n)
  have 5: "isfinite (rsquared r5) \<and> fl_ge (rsquared r5) (rsquared r5)"
    using c5 c5 [unfolded design5_def] _ _ tss by (rule rsquared_le) (simp_all add: nrows_def n)
  show ?thesis using 1 2 3 4 5 by (simp add: rs)
qed

lemmas ols_eval =
  fit_exact_def is_ols_fit_def Let_def coef_exact_def normal_equations_def ssr_def
  centered_tss_def real_cols_def mean_def lessThan_Suc power2_eq_square

lemma y_nested: "column stock returns_nested = [Fin (1 / 100), Fin (2 / 100), Fin (3 / 100), Fin (4 / 100)]"
  by (simp add: returns_nested_def column_def)

lemma designs_nested:
  "design1 returns_nested =
     [(''const'', [Fin 1, Fin 1, Fin 1, Fin 1]),
      (''SP500'', [Fin (1 / 100), Fin (2 / 100), Fin (3 / 100), Fin (4 / 100)])]"
  "design2 returns_nested =
     [(''const'', [Fin 1, Fin 1, Fin 1, Fin 1]),
      (''VW'', [Fin (1 / 100), Fin (- 1 / 100), Fin (- 1 / 100), Fin (1 / 100)])]"
  "design3 returns_nested =
     [(''const'', [Fin 1, Fin 1, Fin 1, Fin 1]),
      (''TYX'', [Fin (1 / 100), Fin (- 2 / 100), Fin (1 / 100), Fin 0])]"
  "design4 returns_nested =
     [(''const'', [Fin 1, Fin 1, Fin 1, Fin 1]),
      (''SP500'', [Fin (1 / 100), Fin (2 / 100), Fin (3 / 100), Fin (4 / 100)]),
      (''VW'', [Fin (1 / 100), Fin (- 1 / 100), Fin (- 1 / 100), Fin (1 / 100)])]"
  "design5 returns_nested =
     [(''const'', [Fin 1, Fin 1, Fin 1, Fin 1]),
      (''SP500'', [Fin (1 / 100), Fin (2 / 100), Fin (3 / 100), Fin (4 / 100)]),
      (''VW'', [Fin (1 / 100), Fin (- 1 / 100), Fin (- 1 / 100), Fin (1 / 100)]),
      (''TYX'', [Fin (1 / 100), Fin (- 2 / 100), Fin (1 / 100), Fin 0])]"
  by (simp_all add: returns_nested_def design_eval)

lemma tss_nested: "centered_tss (map the_real (column stock returns_nested)) = 5 / 10000"
  by (simp add: y_nested centered_tss_def mean_def lessThan_Suc power2_eq_square)

lemma fits_nested:
  "is_ols_fit (column stock returns_nested) (design1 returns_nested)
     (projr (fit_exact (column stock returns_nested) (design1 returns_nested)))"
  "is_ols_fit (column stock returns_nested) (design2 returns_nested)
     (projr (fit_exact (column stock returns_nested) (design2 returns_nested)))"
  "is_ols_fit (column stock returns_nested) (design3 returns_nested)
     (projr (fit_exact (column stock returns_nested) (design3 returns_nested)))"
  "is_ols_fit (column stock returns_nested) (design4 returns_nested)
     (projr (fit_exact (column stock returns_nested) (design4 returns_nested)))"
  "is_ols_fit (column stock returns_nested) (design5 returns_nested)
     (projr (fit_exact (column stock returns_nested) (design5 returns_nested)))"
  unfolding y_nested designs_nested by (simp_all add: ols_eval)

lemma rsq_nested:
  "map (\<lambda>x. rsquared (projr (fit_exact (column stock returns_nested) x))) (five_designs returns_nested) =
     [Fin 1, Fin 0, Fin 0, Fin 1, Fin 1]"
  unfolding five_designs_def y_nested designs_nested by (simp add: ols_eval)

theorem full_model_rsquared_largest_witness:
  "map rsquared (projr (run_regressions fit_exact returns_nested)) = [Fin 1, Fin 0, Fin 0, Fin 1, Fin 1] \<and>
   fl_ge (rsquared (projr (run_regressions fit_exact returns_nested) ! 4))
              (rsquared (projr (run_regressions fit_exact returns_nested) ! 1))"
proof -
  define rs where "rs = map (\<lambda>x. projr (fit_exact (column stock returns_nested) x)) (five_designs returns_nested)"
  have run: "run_regressions fit_exact returns_nested = Inr rs"
    by (simp add: run_regressions_def Let_def rs_def five_designs_def fit_exact_def)
  have c: "\<forall>x \<in> set (five_designs returns_nested). \<forall>r.
        fit_exact (column stock returns_nested) x = Inr r \<longrightarrow> is_ols_fit (column stock returns_nested) x r"
    using fits_nested by (auto simp add: five_designs_def)
  have t: "0 < centered_tss (map the_real (column stock returns_nested))"
    by (simp add: tss_nested)
  have v: "map rsquared rs = [Fin 1, Fin 0, Fin 0, Fin 1, Fin 1]"
    using rsq_nested by (simp add: rs_def comp_def)
  have "rs ! 1 \<in> set rs" by (simp add: rs_def five_designs_def)
  then have "fl_ge (rsquared (rs ! 4)) (rsquared (rs ! 1))"
    using full_model_rsquared_largest [OF run c t] by blast
  then show ?thesis using v by (simp add: run)
qed

lemmas mean_eval =
  fit_mean_def is_ols_fit_def Let_def coef_mean_def normal_equations_def ssr_def
  centered_tss_def real_cols_def mean_def lessThan_Suc power2_eq_square

text \<open>
  Without a non-constant target the claim fails.  On a target that returns one percent
  every month, and on the one-row table, every one of the five fits is a least-squares
  fit, \<open>run_regressions\<close> returns five models, every R-squared is \<open>nan\<close> (zero divided by
  zero), and the comparison of model 5's R-squared with model 1's is false.
\<close>

theorem constant_target_counterexample:
  "list_all (\<lambda>x. is_ols_fit (column stock returns_flat_target) x
                 (projr (fit_mean (column stock returns_flat_target) x)))
            (five_designs returns_flat_target) \<and>
   map rsquared (projr (run_regressions fit_mean returns_flat_target)) = [NaN, NaN, NaN, NaN, NaN] \<and>
   \<not> fl_ge (rsquared (projr (run_regressions fit_mean returns_flat_target) ! 4))
            (rsquared (projr (run_regressions fit_mean returns_flat_target) ! 0)) \<and>
   list_all (\<lambda>x. is_ols_fit (column stock returns_one_row) x
                 (projr (fit_mean (column stock returns_one_row) x)))
            (five_designs returns_one_row) \<and>
   map rsquared (projr (run_regressions fit_mean returns_one_row)) = [NaN, NaN, NaN, NaN, NaN] \<and>
   \<not> fl_ge (rsquared (projr (run_regressions fit_mean returns_one_row) ! 4))
            (rsquared (projr (run_regressions fit_mean returns_one_row) ! 0))"
proof -
  have y4: "column stock returns_flat_target = [Fin (1 / 100), Fin (1 / 100), Fin (1 / 100), Fin (1 / 100)]"
    by (simp add: returns_flat_target_def column_def)
  have d4: "five_designs returns_flat_target =
     [[(''const'', [Fin 1, Fin 1, Fin 1, Fin 1]),
       (''SP500'', [Fin (1 / 100), Fin (2 / 100), Fin (3 / 100), Fin (4 / 100)])],
      [(''const'', [Fin 1, Fin 1, Fin 1, Fin 1]),
       (''VW'', [Fin (1 / 100), Fin (- 1 / 100), Fin (- 1 / 100), Fin (1 / 100)])],
      [(''const'', [Fin 1, Fin 1, Fin 1, Fin 1]),
       (''TYX'', [Fin (1 / 100), Fin (- 2 / 100), Fin (1 / 100), Fin 0])],
      [(''const'', [Fin 1, Fin 1, Fin 1, Fin 1]),
       (''SP500'', [Fin (1 / 100), Fin (2 / 100), Fin (3 / 100), Fin (4 / 100)]),
       (''VW'', [Fin (1 / 100), Fin (- 1 / 100), Fin (- 1 / 100), Fin (1 / 100)])],
      [(''const'', [Fin 1, Fin 1, Fin 1, Fin 1]),
       (''SP500'', [Fin (1 / 100), Fin (2 / 100), Fin (3 / 100), Fin (4 / 100)]),
       (''VW'', [Fin (1 / 100), Fin (- 1 / 100), Fin (- 1 / 100), Fin (1 / 100)]),
       (''TYX'', [Fin (1 / 100), Fin (- 2 / 100), Fin (1 / 100), Fin 0])]]"
    by (simp add: returns_flat_target_def design_eval)
  have y1: "column stock returns_one_row = [Fin 0]"
    by (simp add: returns_one_row_def column_def)
  have d1: "five_designs returns_one_row =
     [[(''const'', [Fin 1]), (''SP500'', [Fin 0])],
      [(''const'', [Fin 1]), (''VW'', [Fin 0])],
      [(''const'', [Fin 1]), (''TYX'', [Fin 0])],
      [(''const'', [Fin 1]), (''SP500'', [Fin 0]), (''VW'', [Fin 0])],
      [(''const'', [Fin 1]), (''SP500'', [Fin 0]), (''VW'', [Fin 0]), (''TYX'', [Fin 0])]]"
    by (simp add: returns_one_row_def design_eval)
  have r4: "run_regressions fit_mean returns_flat_target =
      Inr (map (\<lambda>x. projr (fit_mean (column stock returns_flat_target) x)) (five_designs returns_flat_target))"
    by (simp add: run_regressions_def Let_def five_designs_def fit_mean_def)
  have r1: "run_regressions fit_mean returns_one_row =
      Inr (map (\<lambda>x. projr (fit_mean (column stock returns_one_row) x)) (five_designs returns_one_row))"
    by (simp add: run_regressions_def Let_def five_designs_def fit_mean_def)
  have a4: "list_all (\<lambda>x. is_ols_fit (column stock returns_flat_target) x
                 (projr (fit_mean (column stock returns_flat_target) x)))
            (five_designs returns_flat_target)"
    unfolding y4 d4 by (simp add: mean_eval)
  have a1: "list_all (\<lambda>x. is_ols_fit (column stock returns_one_row) x
                 (projr (fit_mean (column stock returns_one_row) x)))
            (five_designs returns_one_row)"
    unfolding y1 d1 by (simp add: mean_eval)
  have v4: "map rsquared (projr (run_regressions fit_mean returns_flat_target)) = [NaN, NaN, NaN, NaN, NaN]"
    unfolding r4 y4 d4 by (simp add: mean_eval)
  have v1: "map rsquared (projr (run_regressions fit_mean returns_one_row)) = [NaN, NaN, NaN, NaN, NaN]"
    unfolding r1 y1 d1 by (simp add: mean_eval)
  have n4: "\<not> fl_ge (rsquared (projr (run_regressions fit_mean returns_flat_target) ! 4))
            (rsquared (projr (run_regressions fit_mean returns_flat_target) ! 0))"
    unfolding r4 y4 d4 by (simp add: mean_eval)
  have n1: "\<not> fl_ge (rsquared (projr (run_regressions fit_mean returns_one_row) ! 4))
            (rsquared (projr (run_regressions fit_mean returns_one_row) ! 0))"
    unfolding r1 y1 d1 by (simp add: mean_eval)
  show ?thesis using a4 v4 n4 a1 v1 n1 by blast
qed

end
